theory Spec2Isabelle
  imports Main
begin

section \<open>The signaling handler of netlib (internal/signaling/handler.go)\<close>

text \<open>
  The per-connection function returned by \<open>Handler\<close> is embedded as a function from a
  script of what the outside world answers (the upgrade result, what each \<open>conn.Read\<close>
  returns, what the credential provider, \<open>peer.Send\<close> and \<open>peer.HandlePacket\<close> answer,
  and the clock readings) to the list of effects the handler performs, in order, and the
  way it ends. Deferred calls are appended where Go runs them: on return and on panic.
\<close>

subsection \<open>Time and contexts\<close>

type_synonym err = string
type_synonym bytes = string

text \<open>\<open>time.Duration\<close> counts nanoseconds.\<close>

definition Second :: nat where
  "Second = 1000000000"

definition Hour :: nat where
  "Hour = 3600 * Second"

definition MaxConnectionTime :: nat where
  "MaxConnectionTime = 1 * Hour"

text \<open>
  A context is the chain of calls that built it. \<open>WithTimeout parent t d\<close> is
  \<open>context.WithTimeout(parent, d)\<close> called at clock reading \<open>t\<close>.
\<close>

datatype "context" =
    Background
  | RequestContext
  | WithLogger "context"
  | WithTimeout "context" nat nat

text \<open>
  \<open>ctx.Err() != nil\<close> at clock reading \<open>now\<close>, where \<open>rd\<close> says whether the request's
  own context is done: a timeout context is done once its deadline has passed or its
  parent is done.
\<close>

fun ctx_Err :: "nat \<Rightarrow> bool \<Rightarrow> context \<Rightarrow> bool" where
  "ctx_Err now rd Background = False"
| "ctx_Err now rd RequestContext = rd"
| "ctx_Err now rd (WithLogger c) = ctx_Err now rd c"
| "ctx_Err now rd (WithTimeout c t d) = (t + d \<le> now \<or> ctx_Err now rd c)"

text \<open>The contexts a context is derived from, itself included.\<close>

fun ancestors :: "context \<Rightarrow> context list" where
  "ancestors Background = [Background]"
| "ancestors RequestContext = [RequestContext]"
| "ancestors (WithLogger c) = WithLogger c # ancestors c"
| "ancestors (WithTimeout c t d) = WithTimeout c t d # ancestors c"

subsection \<open>Data\<close>

datatype conn = Conn nat

datatype store = Store nat

datatype callback = ManagerReconnected

record Peer =
  store :: store
  conn :: conn
  ID :: string
  closedPacketReceived :: bool
  retrievedIDCallback :: "callback option"

record AcceptOptions =
  InsecureSkipVerify :: bool
  CompressionMode :: int

datatype 'c packet =
    PingPacket string
  | CredentialsPacket string 'c

definition StatusInternalError :: nat where
  "StatusInternalError = 1011"

definition StatusBadRequest :: nat where
  "StatusBadRequest = 400"

text \<open>The effects of the handler, in the order it performs them.\<close>

datatype ('c, 'p) event =
    LogDebug string
  | LogInfo string string
  | LogWarn string string string
  | LogError string string err
  | Accept AcceptOptions
  | CallErrorAndAbort nat string err
  | WgAdd int
  | WgDone
  | GoKeepalive "context"
  | ConnClose conn nat string
  | Disconnected "context" Peer
  | Cancel "context"
  | ConnRead "context" conn
  | GetCredentials "context"
  | CallReplyError "context" conn err
  | PeerSend "context" "'c packet"
  | CallErrorAndDisconnect "context" conn err
  | GoRecordEvent "context" 'p
  | HandlePacket "context" string bytes
  | NewTicker nat
  | TickerStop

datatype flow = Continue | Panic

text \<open>
  Functions of other packages that the handler calls and whose answer depends only on
  their argument: \<open>strings.ToLower\<close>, the constant \<open>websocket.CompressionDisabled\<close>,
  \<open>json.Unmarshal\<close> into \<open>struct{ Type string }\<close> and into \<open>metrics.EventParams\<close>, and
  \<open>util.IsPipeError\<close>.
\<close>

record 'p env =
  ToLower :: "string \<Rightarrow> string"
  CompressionDisabled :: int
  Unmarshal_typeOnly :: "bytes \<Rightarrow> err + string"
  Unmarshal_EventParams :: "bytes \<Rightarrow> err + 'p"
  IsPipeError :: "err \<Rightarrow> bool"

text \<open>
  What the outside world answers during one pass of the read loop: the clock and the
  state of the request's context when \<open>ctx.Err()\<close> is tested, the clock when \<open>conn.Read\<close>
  returns and what it returns, then the results of \<open>cloudflare.GetCredentials\<close>,
  \<open>peer.Send\<close> and \<open>peer.HandlePacket\<close> (which may update the peer) should the pass
  call them.
\<close>

record 'c iteration =
  now :: nat
  request_done :: bool
  Read_returns_at :: nat
  Read_result :: "err + bytes"
  GetCredentials_result :: "err + 'c"
  Send_result :: "err option"
  HandlePacket_result :: "string \<Rightarrow> bytes \<Rightarrow> Peer \<Rightarrow> err option \<times> Peer"

text \<open>
  The contract of the transport's blocking read (\<open>conn.Read(ctx)\<close> of the websocket
  library; the spec has it interruptible by cancellation and timeout): the read returns
  no earlier than the pass began, and when the context is done by the time it returns,
  it returns an error, not a frame.
\<close>

definition Read_honours_ctx :: "context \<Rightarrow> 'c iteration \<Rightarrow> bool" where
  "Read_honours_ctx ctx it =
     (now it \<le> Read_returns_at it \<and>
      (if ctx_Err (Read_returns_at it) (request_done it) ctx then isl (Read_result it) else True))"

record 'c request =
  request_time :: nat
  User_Agent :: string
  Accept_result :: "err + conn"
  iterations :: "'c iteration list"
  teardown_time :: nat

subsection \<open>Helpers of package util\<close>

text \<open>
  Modelled from the spec: \<open>util.ErrorAndAbort\<close> is defined outside handler.go. The
  spec has a failed upgrade rejected with a client error before any Peer exists, so the
  call answers the request and does not return: it panics, and only the calls deferred
  so far run.
\<close>

definition ErrorAndAbort :: "nat \<Rightarrow> string \<Rightarrow> err \<Rightarrow> ('c, 'p) event list \<times> flow" where
  "ErrorAndAbort status code e = ([CallErrorAndAbort status code e], Panic)"

text \<open>
  Modelled from the spec: \<open>util.ErrorAndDisconnect\<close> is defined outside handler.go.
  The spec has read errors, malformed frames and handler errors terminate the connection
  immediately, so the call does not return: it panics, and the deferred calls run.
\<close>

definition ErrorAndDisconnect :: "context \<Rightarrow> conn \<Rightarrow> err \<Rightarrow> ('c, 'p) event list \<times> flow" where
  "ErrorAndDisconnect ctx cn e = ([CallErrorAndDisconnect ctx cn e], Panic)"

text \<open>
  Modelled from the spec: \<open>util.ReplyError\<close> is defined outside handler.go. The spec
  has a request-level error reported back to the sender as an error envelope while the
  connection stays open, so the call returns.
\<close>

definition ReplyError :: "context \<Rightarrow> conn \<Rightarrow> err \<Rightarrow> ('c, 'p) event list \<times> flow" where
  "ReplyError ctx cn e = ([CallReplyError ctx cn e], Continue)"

subsection \<open>The upgrade\<close>

text \<open>\<open>strings.HasPrefix\<close> and \<open>strings.Contains\<close>, on byte strings.\<close>

fun HasPrefix :: "string \<Rightarrow> string \<Rightarrow> bool" where
  "HasPrefix s [] = True"
| "HasPrefix [] (p # ps) = False"
| "HasPrefix (c # s) (p # ps) = (c = p \<and> HasPrefix s ps)"

fun Contains :: "string \<Rightarrow> string \<Rightarrow> bool" where
  "Contains [] sub = (sub = [])"
| "Contains (c # s) sub = (HasPrefix (c # s) sub \<or> Contains s sub)"

definition isSafari :: "'p env \<Rightarrow> string \<Rightarrow> bool" where
  "isSafari env ua =
     (let userAgentLower = ToLower env ua in
      Contains userAgentLower ''safari'' \<and> \<not> Contains userAgentLower ''chrome''
        \<and> \<not> Contains userAgentLower ''android'')"

definition acceptOptions :: "'p env \<Rightarrow> string \<Rightarrow> AcceptOptions" where
  "acceptOptions env ua =
     (let opts = \<lparr>InsecureSkipVerify = True, CompressionMode = 0\<rparr> in
      if isSafari env ua then opts\<lparr>CompressionMode := CompressionDisabled env\<rparr> else opts)"

subsection \<open>The read loop\<close>

text \<open>The \<open>switch typeOnly.Type\<close> of the loop body.\<close>

definition dispatch ::
  "'p env \<Rightarrow> context \<Rightarrow> conn \<Rightarrow> Peer \<Rightarrow> 'c iteration \<Rightarrow> string \<Rightarrow> bytes
     \<Rightarrow> ('c, 'p) event list \<times> Peer \<times> flow" where
  "dispatch env ctx cn peer it ty raw =
     (if ty = ''credentials'' then
        (case GetCredentials_result it of
           Inl e \<Rightarrow>
             (case ReplyError ctx cn e of (tr, fl) \<Rightarrow> (GetCredentials ctx # tr, peer, fl))
         | Inr credentials \<Rightarrow>
             (let packet = CredentialsPacket ''credentials'' credentials in
              case Send_result it of
                Some e \<Rightarrow>
                  (case ErrorAndDisconnect ctx cn e of
                     (tr, fl) \<Rightarrow> (GetCredentials ctx # PeerSend ctx packet # tr, peer, fl))
              | None \<Rightarrow> ([GetCredentials ctx, PeerSend ctx packet], peer, Continue)))
      else if ty = ''event'' then
        (case Unmarshal_EventParams env raw of
           Inl e \<Rightarrow> (case ErrorAndDisconnect ctx cn e of (tr, fl) \<Rightarrow> (tr, peer, fl))
         | Inr params \<Rightarrow> ([GoRecordEvent ctx params], peer, Continue))
      else if ty = ''pong'' then ([], peer, Continue)
      else
        (case HandlePacket_result it ty raw peer of
           (Some e, peer') \<Rightarrow>
             (case ErrorAndDisconnect ctx cn e of
                (tr, fl) \<Rightarrow> (HandlePacket ctx ty raw # tr, peer', fl))
         | (None, peer') \<Rightarrow> ([HandlePacket ctx ty raw], peer', Continue)))"

text \<open>One pass of the loop body, after the test \<open>ctx.Err() == nil\<close> has let it in.\<close>

definition body ::
  "'p env \<Rightarrow> context \<Rightarrow> conn \<Rightarrow> Peer \<Rightarrow> 'c iteration \<Rightarrow> ('c, 'p) event list \<times> Peer \<times> flow" where
  "body env ctx cn peer it =
     (case Read_result it of
        Inl e \<Rightarrow>
          (case ErrorAndDisconnect ctx cn e of (tr, fl) \<Rightarrow> (ConnRead ctx cn # tr, peer, fl))
      | Inr raw \<Rightarrow>
          (case Unmarshal_typeOnly env raw of
             Inl e \<Rightarrow>
               (case ErrorAndDisconnect ctx cn e of (tr, fl) \<Rightarrow> (ConnRead ctx cn # tr, peer, fl))
           | Inr ty \<Rightarrow>
               if closedPacketReceived peer then
                 ([ConnRead ctx cn, LogWarn ''received packet after close'' (ID peer) ty],
                  peer, Continue)
               else
                 (case dispatch env ctx cn peer it ty raw of
                    (tr, peer', fl) \<Rightarrow> (ConnRead ctx cn # tr, peer', fl))))"

text \<open>
  How the per-connection function stands at the end of a script: the loop test failed and
  the function returned, a helper panicked, or the script is used up and the function is
  still waiting in \<open>conn.Read\<close>.
\<close>

datatype outcome = Returned | Panicked | Blocked

fun read_loop ::
  "'p env \<Rightarrow> context \<Rightarrow> conn \<Rightarrow> Peer \<Rightarrow> 'c iteration list
     \<Rightarrow> ('c, 'p) event list \<times> Peer \<times> outcome" where
  "read_loop env ctx cn peer [] = ([], peer, Blocked)"
| "read_loop env ctx cn peer (it # its) =
     (if ctx_Err (now it) (request_done it) ctx then ([], peer, Returned)
      else
        (case body env ctx cn peer it of
           (tr, peer', Panic) \<Rightarrow> (tr, peer', Panicked)
         | (tr, peer', Continue) \<Rightarrow>
             (case read_loop env ctx cn peer' its of
                (tr', peer'', out) \<Rightarrow> (tr @ tr', peer'', out))))"

subsection \<open>Teardown and the per-connection function\<close>

text \<open>The deferred function of lines 62 to 72, run at clock reading \<open>t\<close>.\<close>

definition teardown :: "nat \<Rightarrow> conn \<Rightarrow> Peer \<Rightarrow> ('c, 'p) event list" where
  "teardown t cn peer =
     [LogInfo ''peer websocket closed'' (ID peer),
      ConnClose cn StatusInternalError ''unexpceted closure''] @
     (if \<not> closedPacketReceived peer then
        (let nctx = WithTimeout (WithLogger Background) t (10 * Second) in
         [Disconnected nctx peer, Cancel nctx])
      else [])"

definition connection_ctx :: "'c request \<Rightarrow> context" where
  "connection_ctx r = WithTimeout RequestContext (request_time r) MaxConnectionTime"

definition new_peer :: "store \<Rightarrow> conn \<Rightarrow> Peer" where
  "new_peer st cn =
     \<lparr>store = st, conn = cn, ID = '''', closedPacketReceived = False,
      retrievedIDCallback = Some ManagerReconnected\<rparr>"

text \<open>
  The function literal that \<open>Handler\<close> returns as \<open>http.HandlerFunc\<close>. The result is the
  effects in order, the peer as the function left it (none when the upgrade failed), and
  how the function ended.
\<close>

definition HandlerFunc ::
  "'p env \<Rightarrow> store \<Rightarrow> 'c request \<Rightarrow> ('c, 'p) event list \<times> Peer option \<times> outcome" where
  "HandlerFunc env st r =
     (let ctx = connection_ctx r;
          pre = [LogDebug ''upgrading connection'', Accept (acceptOptions env (User_Agent r))]
      in
      case Accept_result r of
        Inl e \<Rightarrow>
          (case ErrorAndAbort StatusBadRequest '''' e of
             (tr, fl) \<Rightarrow> (pre @ tr @ [Cancel ctx], None, Panicked))
      | Inr cn \<Rightarrow>
          (let peer = new_peer st cn;
               started = pre @ [WgAdd 1, GoKeepalive ctx]
           in
           case read_loop env ctx cn peer (iterations r) of
             (tr, peer', Blocked) \<Rightarrow> (started @ tr, Some peer', Blocked)
           | (tr, peer', out) \<Rightarrow>
               (started @ tr @ teardown (teardown_time r) cn peer' @ [WgDone, Cancel ctx],
                Some peer', out)))"

subsection \<open>The keepalive task\<close>

text \<open>
  One wake-up of the \<open>select\<close> of the keepalive task: the clock, whether the request's
  context is done, whether the deferred \<open>cancel()\<close> of the per-connection function has
  run, whether a tick is waiting in \<open>ticker.C\<close>, which case Go takes when both are ready,
  and, should a ping be sent, the peer's ID at that moment and what \<open>peer.Send\<close> answers.
\<close>

record wakeup =
  woke_at :: nat
  parent_done :: bool
  cancelled :: bool
  tick_ready :: bool
  takes_tick :: bool
  peer_ID :: string
  ping_result :: "err option"

text \<open>\<open>ctx.Done()\<close> is closed: the context was cancelled, or \<open>ctx.Err()\<close> is not nil.\<close>

definition ctx_Done :: "context \<Rightarrow> wakeup \<Rightarrow> bool" where
  "ctx_Done ctx w = (cancelled w \<or> ctx_Err (woke_at w) (parent_done w) ctx)"

datatype selected = TickerC | CtxDone | Waiting

text \<open>The case that the \<open>select\<close> of lines 78 to 85 takes at a wake-up.\<close>

definition select_case :: "context \<Rightarrow> wakeup \<Rightarrow> selected" where
  "select_case ctx w =
     (if tick_ready w \<and> ctx_Done ctx w then (if takes_tick w then TickerC else CtxDone)
      else if tick_ready w then TickerC
      else if ctx_Done ctx w then CtxDone
      else Waiting)"

fun keepalive_loop :: "'p env \<Rightarrow> context \<Rightarrow> wakeup list \<Rightarrow> ('c, 'p) event list \<times> bool" where
  "keepalive_loop env ctx [] = ([], False)"
| "keepalive_loop env ctx (w # ws) =
     (case select_case ctx w of
        TickerC \<Rightarrow>
          (let tr = PeerSend ctx (PingPacket ''ping'') #
                    (case ping_result w of
                       Some e \<Rightarrow>
                         if \<not> IsPipeError env e
                         then [LogError ''failed to send ping packet'' (peer_ID w) e] else []
                     | None \<Rightarrow> [])
           in case keepalive_loop env ctx ws of (tr', fin) \<Rightarrow> (tr @ tr', fin))
      | CtxDone \<Rightarrow> ([], True)
      | Waiting \<Rightarrow> keepalive_loop env ctx ws)"

text \<open>
  The task started by the \<open>go\<close> statement of line 74 with the context \<open>ctx\<close>: the flag says
  whether it has returned (and so stopped its ticker).
\<close>

definition keepalive :: "'p env \<Rightarrow> context \<Rightarrow> wakeup list \<Rightarrow> ('c, 'p) event list \<times> bool" where
  "keepalive env ctx ws =
     (case keepalive_loop env ctx ws of
        (tr, fin) \<Rightarrow> (NewTicker (30 * Second) # tr @ (if fin then [TickerStop] else []), fin))"

text \<open>The contexts of the keepalive tasks that a list of effects starts.\<close>

fun keepalive_contexts :: "('c, 'p) event list \<Rightarrow> context list" where
  "keepalive_contexts [] = []"
| "keepalive_contexts (GoKeepalive c # es) = c # keepalive_contexts es"
| "keepalive_contexts (e # es) = keepalive_contexts es"

text \<open>
  The keepalive tasks of a connection: one run, on the wake-ups \<open>ws\<close>, for every \<open>go\<close>
  statement that the per-connection function performs.
\<close>

definition connection_keepalive ::
  "'p env \<Rightarrow> store \<Rightarrow> 'c request \<Rightarrow> wakeup list \<Rightarrow> (('c, 'p) event list \<times> bool) list" where
  "connection_keepalive env st r ws =
     map (\<lambda>c. keepalive env c ws) (keepalive_contexts (fst (HandlerFunc env st r)))"

subsection \<open>The wait-group\<close>

text \<open>The counter of the wait-group after a list of effects, starting from a fresh one.\<close>

fun wg_counter :: "('c, 'p) event list \<Rightarrow> int" where
  "wg_counter [] = 0"
| "wg_counter (WgAdd n # es) = n + wg_counter es"
| "wg_counter (WgDone # es) = wg_counter es - 1"
| "wg_counter (e # es) = wg_counter es"

subsection \<open>Kinds of effects\<close>

text \<open>The effects that the read loop itself can produce.\<close>

fun loop_event :: "('c, 'p) event \<Rightarrow> bool" where
  "loop_event (ConnRead c k) = True"
| "loop_event (LogWarn a b c) = True"
| "loop_event (GetCredentials c) = True"
| "loop_event (CallReplyError c k e) = True"
| "loop_event (PeerSend c p) = True"
| "loop_event (CallErrorAndDisconnect c k e) = True"
| "loop_event (GoRecordEvent c p) = True"
| "loop_event (HandlePacket c t r) = True"
| "loop_event e = False"

text \<open>The calls on the wait-group.\<close>

fun wg_event :: "('c, 'p) event \<Rightarrow> bool" where
  "wg_event (WgAdd n) = True"
| "wg_event WgDone = True"
| "wg_event e = False"

text \<open>What the loop can still do once the close packet has been received.\<close>

fun after_close_event :: "('c, 'p) event \<Rightarrow> bool" where
  "after_close_event (ConnRead c k) = True"
| "after_close_event (LogWarn a b c) = True"
| "after_close_event (CallErrorAndDisconnect c k e) = True"
| "after_close_event e = False"

text \<open>The effects of the branches of the type switch.\<close>

fun dispatch_event :: "('c, 'p) event \<Rightarrow> bool" where
  "dispatch_event (GetCredentials c) = True"
| "dispatch_event (CallReplyError c k e) = True"
| "dispatch_event (PeerSend c p) = True"
| "dispatch_event (GoRecordEvent c p) = True"
| "dispatch_event (HandlePacket c t r) = True"
| "dispatch_event e = False"

text \<open>
  The counter of the wait-group shared by the connections \<open>cs\<close>, when the connection of
  request \<open>r\<close> has performed the first \<open>n\<close> of its effects, for each \<open>(r, n)\<close> of \<open>cs\<close>.
\<close>

definition wg_total :: "'p env \<Rightarrow> store \<Rightarrow> ('c request \<times> nat) list \<Rightarrow> int" where
  "wg_total env st cs =
     sum_list (map (\<lambda>(r, n). wg_counter (take n (fst (HandlerFunc env st r)))) cs)"

subsection \<open>Example inputs\<close>

text \<open>
  A concrete world to run the handler in: \<open>strings.ToLower\<close> on ASCII text, a decoder that
  knows a handful of frames, and scripted answers of the collaborators.
\<close>

definition lower_table :: "(char \<times> char) list" where
  "lower_table = zip ''ABCDEFGHIJKLMNOPQRSTUVWXYZ'' ''abcdefghijklmnopqrstuvwxyz''"

definition ascii_ToLower :: "string \<Rightarrow> string" where
  "ascii_ToLower s = map (\<lambda>c. case map_of lower_table c of Some d \<Rightarrow> d | None \<Rightarrow> c) s"

definition example_typeOnly :: "bytes \<Rightarrow> err + string" where
  \<open>example_typeOnly raw =
     (case map_of
        [(''{"type":"credentials"}'', ''credentials''),
         (''{"type":"event","action":"start"}'', ''event''),
         (''{"type":"event","action":5}'', ''event''),
         (''{"type":"pong"}'', ''pong''),
         (''{"type":"hello"}'', ''hello''),
         (''{"type":"close"}'', ''close'')] raw of
        Some ty \<Rightarrow> Inr ty
      | None \<Rightarrow> Inl ''invalid character'')\<close>

definition example_EventParams :: "bytes \<Rightarrow> err + string" where
  \<open>example_EventParams raw =
     (if raw = ''{"type":"event","action":"start"}'' then Inr ''start''
      else Inl ''json: cannot unmarshal number into Go struct field'')\<close>

definition example_env :: "string env" where
  "example_env =
     \<lparr>ToLower = ascii_ToLower, CompressionDisabled = 2,
      Unmarshal_typeOnly = example_typeOnly, Unmarshal_EventParams = example_EventParams,
      IsPipeError = (\<lambda>e. e = ''io: read/write on closed pipe'')\<rparr>"

definition example_HandlePacket :: "string \<Rightarrow> bytes \<Rightarrow> Peer \<Rightarrow> err option \<times> Peer" where
  "example_HandlePacket ty raw peer =
     (if ty = ''close'' then (None, peer\<lparr>closedPacketReceived := True\<rparr>)
      else if ty = ''hello'' then (None, peer\<lparr>ID := ''peer-1''\<rparr>)
      else (Some ''unknown packet type'', peer))"

text \<open>A pass at clock reading \<open>t\<close> in which \<open>conn.Read\<close> delivers the frame \<open>raw\<close>.\<close>

definition frame :: "nat \<Rightarrow> bytes \<Rightarrow> string iteration" where
  "frame t raw =
     \<lparr>now = t, request_done = False, Read_returns_at = t, Read_result = Inr raw,
      GetCredentials_result = Inr ''turn-credentials'', Send_result = None,
      HandlePacket_result = example_HandlePacket\<rparr>"

text \<open>A pass at clock reading \<open>t\<close> in which \<open>conn.Read\<close> fails.\<close>

definition read_failure :: "nat \<Rightarrow> string iteration" where
  "read_failure t = (frame t [])\<lparr>Read_result := Inl ''EOF''\<rparr>"

definition example_request :: "string \<Rightarrow> string iteration list \<Rightarrow> string request" where
  "example_request ua its =
     \<lparr>request_time = 0, User_Agent = ua, Accept_result = Inr (Conn 1),
      iterations = its, teardown_time = 5 * Second\<rparr>"

text \<open>
  A pass begun at clock reading \<open>t\<close> whose \<open>conn.Read\<close> waits for a frame until the deadline
  \<open>d\<close> of the context and then fails.
\<close>

definition read_until_deadline :: "nat \<Rightarrow> nat \<Rightarrow> string iteration" where
  "read_until_deadline t d =
     (frame t [])\<lparr>Read_returns_at := d, Read_result := Inl ''context deadline exceeded''\<rparr>"

text \<open>A wake-up of the keepalive task by its ticker at clock reading \<open>t\<close>, the context not done.\<close>

definition tick :: "nat \<Rightarrow> err option \<Rightarrow> wakeup" where
  "tick t r =
     \<lparr>woke_at = t, parent_done = False, cancelled = False, tick_ready = True,
      takes_tick = True, peer_ID = ''peer-1'', ping_result = r\<rparr>"

text \<open>A wake-up at clock reading \<open>t\<close> by the \<open>cancel()\<close> of the per-connection function.\<close>

definition handler_ended :: "nat \<Rightarrow> wakeup" where
  "handler_ended t =
     \<lparr>woke_at = t, parent_done = False, cancelled = True, tick_ready = False,
      takes_tick = False, peer_ID = ''peer-1'', ping_result = None\<rparr>"

lemmas example_defs =
  example_env_def example_typeOnly_def example_EventParams_def example_HandlePacket_def
  frame_def read_failure_def example_request_def ascii_ToLower_def lower_table_def
  read_until_deadline_def tick_def handler_ended_def

lemmas handler_defs =
  HandlerFunc_def connection_ctx_def new_peer_def teardown_def body_def dispatch_def
  acceptOptions_def isSafari_def ErrorAndAbort_def ErrorAndDisconnect_def ReplyError_def
  MaxConnectionTime_def Hour_def Second_def StatusInternalError_def StatusBadRequest_def

section \<open>Properties\<close>

subsection \<open>Auxiliary facts\<close>

text \<open>\<open>Contains\<close> is the substring relation.\<close>

lemma HasPrefix_iff: "HasPrefix s p \<longleftrightarrow> (\<exists>b. s = p @ b)"
  by (induction s p rule: HasPrefix.induct) auto

lemma Contains_iff: "Contains s sub \<longleftrightarrow> (\<exists>a b. s = a @ sub @ b)"
proof (induction s)
  case Nil
  then show ?case by auto
next
  case (Cons c s)
  show ?case
  proof
    assume "Contains (c # s) sub"
    then consider "HasPrefix (c # s) sub" | "Contains s sub" by auto
    then show "\<exists>a b. c # s = a @ sub @ b"
    proof cases
      case 1
      then obtain b where "c # s = sub @ b" by (auto simp: HasPrefix_iff)
      then have "c # s = [] @ sub @ b" by simp
      then show ?thesis by blast
    next
      case 2
      with Cons.IH obtain a b where "s = a @ sub @ b" by auto
      then have "c # s = (c # a) @ sub @ b" by simp
      then show ?thesis by blast
    qed
  next
    assume "\<exists>a b. c # s = a @ sub @ b"
    then obtain a b where ab: "c # s = a @ sub @ b" by auto
    show "Contains (c # s) sub"
    proof (cases a)
      case Nil
      with ab have "HasPrefix (c # s) sub" by (auto simp: HasPrefix_iff)
      then show ?thesis by simp
    next
      case (Cons x a')
      with ab have "s = a' @ sub @ b" by simp
      with Cons.IH have "Contains s sub" by blast
      then show ?thesis by simp
    qed
  qed
qed

text \<open>The read loop produces effects of its own kind only.\<close>

lemma dispatch_events:
  "dispatch env ctx cn peer it ty raw = (tr, peer', fl) \<Longrightarrow> e \<in> set tr \<Longrightarrow> loop_event e"
  by (auto simp: dispatch_def ErrorAndDisconnect_def ReplyError_def Let_def
           split: if_splits sum.splits option.splits prod.splits)

lemma body_events:
  "body env ctx cn peer it = (tr, peer', fl) \<Longrightarrow> e \<in> set tr \<Longrightarrow> loop_event e"
  by (auto simp: body_def ErrorAndDisconnect_def 
           split: if_splits sum.splits option.splits prod.splits dest: dispatch_events)

lemma read_loop_events:
  "read_loop env ctx cn peer its = (tr, peer', out) \<Longrightarrow> e \<in> set tr \<Longrightarrow> loop_event e"
proof (induction its arbitrary: peer tr peer' out)
  case Nil
  then show ?case by simp
next
  case (Cons it its)
  show ?case
  proof (cases "ctx_Err (now it) (request_done it) ctx")
    case True
    with Cons.prems show ?thesis by simp
  next
    case False
    obtain t1 p1 f1 where b: "body env ctx cn peer it = (t1, p1, f1)"
      by (cases "body env ctx cn peer it") auto
    show ?thesis
    proof (cases f1)
      case Panic
      with Cons.prems False b show ?thesis by (auto dest: body_events)
    next
      case Continue
      obtain t2 p2 o2 where l: "read_loop env ctx cn p1 its = (t2, p2, o2)"
        by (cases "read_loop env ctx cn p1 its") auto
      with Cons.prems False b Continue have "tr = t1 @ t2" by simp
      with Cons.prems(2) Cons.IH [OF l] b show ?thesis by (auto dest: body_events)
    qed
  qed
qed

lemma read_loop_append:
  "read_loop env ctx cn peer (a @ b) =
     (case read_loop env ctx cn peer a of
        (tr, p, Blocked) \<Rightarrow>
          (case read_loop env ctx cn p b of (tr', p', out) \<Rightarrow> (tr @ tr', p', out))
      | (tr, p, out) \<Rightarrow> (tr, p, out))"
  by (induction a arbitrary: peer)
     (auto split: prod.splits flow.splits outcome.splits)

lemma read_loop_expired:
  assumes "ctx_Err (now it) (request_done it) ctx"
  shows "read_loop env ctx cn peer (its1 @ it # its2) = read_loop env ctx cn peer (its1 @ [it])"
    and "snd (snd (read_loop env ctx cn peer (its1 @ it # its2))) \<noteq> Blocked"
  using assms by (auto simp: read_loop_append split: prod.splits outcome.splits)

lemma HandlerFunc_accepted:
  assumes "Accept_result r = Inr cn"
    and "read_loop env (connection_ctx r) cn (new_peer st cn) (iterations r) = (tr, p, out)"
  shows "HandlerFunc env st r =
     (if out = Blocked
      then ([LogDebug ''upgrading connection'', Accept (acceptOptions env (User_Agent r)),
             WgAdd 1, GoKeepalive (connection_ctx r)] @ tr, Some p, Blocked)
      else ([LogDebug ''upgrading connection'', Accept (acceptOptions env (User_Agent r)),
             WgAdd 1, GoKeepalive (connection_ctx r)] @ tr @
            teardown (teardown_time r) cn p @ [WgDone, Cancel (connection_ctx r)], Some p, out))"
  using assms by (cases out) (simp_all add: HandlerFunc_def Let_def)

lemma HandlerFunc_rejected:
  assumes "Accept_result r = Inl e"
  shows "HandlerFunc env st r =
     ([LogDebug ''upgrading connection'', Accept (acceptOptions env (User_Agent r)),
       CallErrorAndAbort StatusBadRequest '''' e, Cancel (connection_ctx r)], None, Panicked)"
  using assms by (simp add: HandlerFunc_def Let_def ErrorAndAbort_def)

text \<open>The loop body by cases.\<close>

lemma body_closed:
  assumes "closedPacketReceived peer"
  shows "body env ctx cn peer it =
     (case Read_result it of
        Inl e \<Rightarrow> ([ConnRead ctx cn, CallErrorAndDisconnect ctx cn e], peer, Panic)
      | Inr raw \<Rightarrow>
          (case Unmarshal_typeOnly env raw of
             Inl e \<Rightarrow> ([ConnRead ctx cn, CallErrorAndDisconnect ctx cn e], peer, Panic)
           | Inr ty \<Rightarrow>
               ([ConnRead ctx cn, LogWarn ''received packet after close'' (ID peer) ty],
                peer, Continue)))"
  using assms by (simp add: body_def ErrorAndDisconnect_def split: sum.splits)

lemma body_failure:
  assumes "Read_result it = Inl e \<or> (\<exists>raw. Read_result it = Inr raw \<and> Unmarshal_typeOnly env raw = Inl e)"
  shows "body env ctx cn peer it = ([ConnRead ctx cn, CallErrorAndDisconnect ctx cn e], peer, Panic)"
  using assms by (auto simp: body_def ErrorAndDisconnect_def)

lemma body_open:
  assumes "Read_result it = Inr raw" and "Unmarshal_typeOnly env raw = Inr ty"
    and "\<not> closedPacketReceived peer"
  shows "body env ctx cn peer it =
     (case dispatch env ctx cn peer it ty raw of
        (tr, p2, fl) \<Rightarrow> (ConnRead ctx cn # tr, p2, fl))"
  using assms by (simp add: body_def)


lemma dispatch_event_frame:
  "dispatch env ctx cn peer it ''event'' raw =
     (case Unmarshal_EventParams env raw of
        Inl e \<Rightarrow> ([CallErrorAndDisconnect ctx cn e], peer, Panic)
      | Inr params \<Rightarrow> ([GoRecordEvent ctx params], peer, Continue))"
  by (simp add: dispatch_def ErrorAndDisconnect_def split: sum.splits)

lemma read_loop_continue:
  assumes "\<not> ctx_Err (now it) (request_done it) ctx"
    and "body env ctx cn peer it = (trb, p2, Continue)"
  shows "read_loop env ctx cn peer (it # its) =
     (case read_loop env ctx cn p2 its of (tr, p, out) \<Rightarrow> (trb @ tr, p, out))"
  using assms by simp

lemma read_loop_closed:
  assumes "closedPacketReceived peer" and "read_loop env ctx cn peer its = (tr, peer', out)"
  shows "peer' = peer \<and> (\<forall>e \<in> set tr. after_close_event e)"
  using assms
proof (induction its arbitrary: tr peer' out)
  case Nil
  then show ?case by simp
next
  case (Cons it its)
  show ?case
  proof (cases "ctx_Err (now it) (request_done it) ctx")
    case True
    with Cons.prems show ?thesis by simp
  next
    case False
    obtain t2 p2 o2 where l: "read_loop env ctx cn peer its = (t2, p2, o2)"
      by (cases "read_loop env ctx cn peer its") auto
    from Cons.IH [OF Cons.prems(1) l] have ih: "p2 = peer" "\<forall>e \<in> set t2. after_close_event e"
      by auto
    from Cons.prems(2) False l ih show ?thesis
      by (auto simp: body_closed [OF Cons.prems(1)] split: sum.splits)
  qed
qed

text \<open>The per-connection function when a pass panics, when the loop test fails, and in general.\<close>

lemma HandlerFunc_panic_at:
  assumes acc: "Accept_result r = Inr cn"
    and its: "iterations r = its1 @ it # its2"
    and pre: "read_loop env (connection_ctx r) cn (new_peer st cn) its1 = (tr1, p1, Blocked)"
    and live: "\<not> ctx_Err (now it) (request_done it) (connection_ctx r)"
    and b: "body env (connection_ctx r) cn p1 it = (trb, p2, Panic)"
  shows "HandlerFunc env st r =
     ([LogDebug ''upgrading connection'', Accept (acceptOptions env (User_Agent r)),
       WgAdd 1, GoKeepalive (connection_ctx r)] @ tr1 @ trb @
      teardown (teardown_time r) cn p2 @ [WgDone, Cancel (connection_ctx r)], Some p2, Panicked)"
proof -
  have "read_loop env (connection_ctx r) cn (new_peer st cn) (iterations r) = (tr1 @ trb, p2, Panicked)"
    using its pre live b by (simp add: read_loop_append)
  from HandlerFunc_accepted [OF acc this] show ?thesis by simp
qed

lemma HandlerFunc_return_at:
  assumes acc: "Accept_result r = Inr cn"
    and its: "iterations r = its1 @ it # its2"
    and pre: "read_loop env (connection_ctx r) cn (new_peer st cn) its1 = (tr1, p1, Blocked)"
    and dead: "ctx_Err (now it) (request_done it) (connection_ctx r)"
  shows "HandlerFunc env st r =
     ([LogDebug ''upgrading connection'', Accept (acceptOptions env (User_Agent r)),
       WgAdd 1, GoKeepalive (connection_ctx r)] @ tr1 @
      teardown (teardown_time r) cn p1 @ [WgDone, Cancel (connection_ctx r)], Some p1, Returned)"
proof -
  have "read_loop env (connection_ctx r) cn (new_peer st cn) (iterations r) = (tr1, p1, Returned)"
    using its pre dead by (simp add: read_loop_append)
  from HandlerFunc_accepted [OF acc this] show ?thesis by simp
qed

lemma HandlerFunc_finished:
  assumes acc: "Accept_result r = Inr cn"
    and fin: "snd (snd (HandlerFunc env st r)) \<noteq> Blocked"
  shows "\<exists>t p. (\<forall>e \<in> set t. loop_event e) \<and>
     HandlerFunc env st r =
       ([LogDebug ''upgrading connection'', Accept (acceptOptions env (User_Agent r)),
         WgAdd 1, GoKeepalive (connection_ctx r)] @ t @
        teardown (teardown_time r) cn p @ [WgDone, Cancel (connection_ctx r)],
        Some p, snd (snd (HandlerFunc env st r)))"
proof -
  obtain t p out where l:
    "read_loop env (connection_ctx r) cn (new_peer st cn) (iterations r) = (t, p, out)"
    by (cases "read_loop env (connection_ctx r) cn (new_peer st cn) (iterations r)") auto
  have ev: "\<forall>e \<in> set t. loop_event e" using read_loop_events [OF l] by blast
  from HandlerFunc_accepted [OF acc l] fin have "out \<noteq> Blocked"
    by (auto split: if_splits)
  with HandlerFunc_accepted [OF acc l] ev show ?thesis
    by (intro exI [of _ t] exI [of _ p]) simp
qed

lemma HandlerFunc_blocked:
  assumes acc: "Accept_result r = Inr cn"
    and blk: "snd (snd (HandlerFunc env st r)) = Blocked"
  shows "\<exists>t p. (\<forall>e \<in> set t. loop_event e) \<and>
     HandlerFunc env st r =
       ([LogDebug ''upgrading connection'', Accept (acceptOptions env (User_Agent r)),
         WgAdd 1, GoKeepalive (connection_ctx r)] @ t, Some p, Blocked)"
proof -
  obtain t p out where l:
    "read_loop env (connection_ctx r) cn (new_peer st cn) (iterations r) = (t, p, out)"
    by (cases "read_loop env (connection_ctx r) cn (new_peer st cn) (iterations r)") auto
  have ev: "\<forall>e \<in> set t. loop_event e" using read_loop_events [OF l] by blast
  from HandlerFunc_accepted [OF acc l] blk have "out = Blocked"
    by (auto split: if_splits)
  with HandlerFunc_accepted [OF acc l] ev show ?thesis
    by (intro exI [of _ t] exI [of _ p]) simp
qed

text \<open>The keepalive loop in closed form, and the tasks that a connection starts.\<close>

lemma keepalive_loop_eq:
  "keepalive_loop env ctx ws =
     (concat (map (\<lambda>w. if select_case ctx w = TickerC
                        then PeerSend ctx (PingPacket ''ping'') #
                             (case ping_result w of
                                None \<Rightarrow> []
                              | Some e \<Rightarrow>
                                  if IsPipeError env e then []
                                  else [LogError ''failed to send ping packet'' (peer_ID w) e])
                        else [])
                  (takeWhile (\<lambda>w. select_case ctx w \<noteq> CtxDone) ws)),
      \<exists>w \<in> set ws. select_case ctx w = CtxDone)"
proof (induction ws)
  case Nil
  then show ?case by simp
next
  case (Cons w ws)
  then show ?case
    by (cases "select_case ctx w") (auto split: option.splits)
qed

lemma keepalive_contexts_append:
  "keepalive_contexts (a @ b) = keepalive_contexts a @ keepalive_contexts b"
  by (induction a rule: keepalive_contexts.induct) auto

lemma keepalive_contexts_none:
  "\<forall>e \<in> set a. \<forall>c. e \<noteq> GoKeepalive c \<Longrightarrow> keepalive_contexts a = []"
  by (induction a rule: keepalive_contexts.induct) auto

lemma loop_event_not_go: "loop_event e \<Longrightarrow> e \<noteq> GoKeepalive c"
  by (cases e) auto

lemma teardown_not_go: "e \<in> set (teardown t cn p) \<Longrightarrow> e \<noteq> GoKeepalive c"
  by (auto simp: teardown_def Let_def split: if_splits)

lemma keepalive_contexts_HandlerFunc:
  "keepalive_contexts (fst (HandlerFunc env st r)) =
     (case Accept_result r of Inl e \<Rightarrow> [] | Inr cn \<Rightarrow> [connection_ctx r])"
proof (cases "Accept_result r")
  case (Inl e)
  then show ?thesis by (simp add: HandlerFunc_rejected [OF Inl])
next
  case (Inr cn)
  show ?thesis
  proof (cases "snd (snd (HandlerFunc env st r)) = Blocked")
    case True
    from HandlerFunc_blocked [OF Inr True] obtain t p where
      t: "\<forall>e \<in> set t. loop_event e" and
      h: "HandlerFunc env st r =
       ([LogDebug ''upgrading connection'', Accept (acceptOptions env (User_Agent r)),
         WgAdd 1, GoKeepalive (connection_ctx r)] @ t, Some p, Blocked)" by blast
    have "keepalive_contexts t = []"
      using t by (intro keepalive_contexts_none) (auto dest: loop_event_not_go)
    with Inr show ?thesis by (simp add: h)
  next
    case False
    from HandlerFunc_finished [OF Inr False] obtain t p where
      t: "\<forall>e \<in> set t. loop_event e" and
      h: "HandlerFunc env st r =
       ([LogDebug ''upgrading connection'', Accept (acceptOptions env (User_Agent r)),
         WgAdd 1, GoKeepalive (connection_ctx r)] @ t @
        teardown (teardown_time r) cn p @ [WgDone, Cancel (connection_ctx r)],
        Some p, snd (snd (HandlerFunc env st r)))" by blast
    have "keepalive_contexts t = []"
      using t by (intro keepalive_contexts_none) (auto dest: loop_event_not_go)
    moreover have "keepalive_contexts (teardown (teardown_time r) cn p) = []"
      by (intro keepalive_contexts_none) (auto dest: teardown_not_go)
    moreover have "fst (HandlerFunc env st r) =
        [LogDebug ''upgrading connection'', Accept (acceptOptions env (User_Agent r)),
         WgAdd 1, GoKeepalive (connection_ctx r)] @ t @
        teardown (teardown_time r) cn p @ [WgDone, Cancel (connection_ctx r)]"
      by (subst h) simp
    ultimately show ?thesis using Inr by (simp add: keepalive_contexts_append)
  qed
qed

text \<open>The counter of the wait-group along the effects of one connection.\<close>

lemma take_append_ge: "length a \<le> n \<Longrightarrow> take n (a @ b) = a @ take (n - length a) b"
  by simp

lemma wg_counter_append: "wg_counter (a @ b) = wg_counter a + wg_counter b"
  by (induction a rule: wg_counter.induct) auto

lemma wg_counter_none: "\<forall>e \<in> set a. \<not> wg_event e \<Longrightarrow> wg_counter a = 0"
  by (induction a rule: wg_counter.induct) auto

lemma wg_filter_none: "\<forall>e \<in> set a. \<not> wg_event e \<Longrightarrow> filter wg_event a = []"
  by (induction a) auto

lemma loop_event_not_wg: "loop_event e \<Longrightarrow> \<not> wg_event e"
  by (cases e) auto

lemma teardown_not_wg: "e \<in> set (teardown t cn p) \<Longrightarrow> \<not> wg_event e"
  by (auto simp: teardown_def Let_def split: if_splits)

lemma wg_counter_prefix:
  assumes mid: "\<forall>e \<in> set mid. \<not> wg_event e"
    and e0: "\<not> wg_event e0" and e1: "\<not> wg_event e1"
    and fin: "fin = [] \<or> (\<exists>c. fin = [WgDone, c] \<and> \<not> wg_event c)"
  shows "wg_counter (take n ([e0, e1, WgAdd 1] @ mid @ fin)) =
     (if n < 3 then 0 else if fin = [] \<or> n \<le> 3 + length mid then 1 else 0)"
proof (cases "n < 3")
  case True
  then consider "n = 0" | "n = 1" | "n = 2" by linarith
  then show ?thesis
  proof cases
    case 1
    then show ?thesis by simp
  next
    case 2
    with e0 show ?thesis by (simp add: wg_counter_none)
  next
    case 3
    then have "take n ([e0, e1, WgAdd 1] @ mid @ fin) = [e0, e1]"
      by (simp add: numeral_2_eq_2)
    with e0 e1 3 show ?thesis by (simp add: wg_counter_none)
  qed
next
  case False
  define m where "m = n - 3"
  with False have m: "n = Suc (Suc (Suc m))"
    by simp
  have t: "take n ([e0, e1, WgAdd 1] @ mid @ fin) =
      [e0, e1] @ [WgAdd 1] @ take (n - 3) mid @ take (n - 3 - length mid) fin"
    by (simp add: m)
  have m: "wg_counter (take (n - 3) mid) = 0"
    using mid by (intro wg_counter_none) (auto dest: in_set_takeD)
  have f: "wg_counter (take (n - 3 - length mid) fin) =
      (if fin = [] \<or> n \<le> 3 + length mid then 0 else - 1)"
  proof (cases "fin = [] \<or> n \<le> 3 + length mid")
    case True
    then show ?thesis by auto
  next
    case False
    with fin obtain c where c: "fin = [WgDone, c]" "\<not> wg_event c" by auto
    from False obtain k where k: "n - 3 - length mid = Suc k"
      by (cases "n - 3 - length mid") auto
    have "wg_counter (take k [c]) = 0"
      using c(2) by (intro wg_counter_none) (auto dest: in_set_takeD)
    with False c k show ?thesis by simp
  qed
  from e0 e1 have "wg_counter [e0, e1] = 0" by (simp add: wg_counter_none)
  with False t m f show ?thesis
    by (simp only: wg_counter_append) simp
qed

lemma conn_counter_accepted:
  assumes acc: "Accept_result r = Inr cn"
  shows "wg_counter (take n (fst (HandlerFunc env st r))) =
     (if n < 3 then 0
      else if snd (snd (HandlerFunc env st r)) = Blocked
              \<or> n < length (fst (HandlerFunc env st r)) - 1 then 1 else 0)"
proof (cases "snd (snd (HandlerFunc env st r)) = Blocked")
  case True
  from HandlerFunc_blocked [OF acc True] obtain t p where
    t: "\<forall>e \<in> set t. loop_event e" and
    h: "HandlerFunc env st r =
       ([LogDebug ''upgrading connection'', Accept (acceptOptions env (User_Agent r)),
         WgAdd 1, GoKeepalive (connection_ctx r)] @ t, Some p, Blocked)" by blast
  let ?mid = "GoKeepalive (connection_ctx r) # t"
  have eq: "fst (HandlerFunc env st r) =
      [LogDebug ''upgrading connection'', Accept (acceptOptions env (User_Agent r)), WgAdd 1] @
      ?mid @ []"
    by (subst h) simp
  have mid: "\<forall>e \<in> set ?mid. \<not> wg_event e"
    using t by (auto dest: loop_event_not_wg)
  have "wg_counter (take n (fst (HandlerFunc env st r))) =
      (if n < 3 then 0 else if ([] :: ('a, 'b) event list) = [] \<or> n \<le> 3 + length ?mid then 1 else 0)"
    by (subst eq, rule wg_counter_prefix [OF mid]) simp_all
  with True show ?thesis by simp
next
  case False
  from HandlerFunc_finished [OF acc False] obtain t p where
    t: "\<forall>e \<in> set t. loop_event e" and
    h: "HandlerFunc env st r =
       ([LogDebug ''upgrading connection'', Accept (acceptOptions env (User_Agent r)),
         WgAdd 1, GoKeepalive (connection_ctx r)] @ t @
        teardown (teardown_time r) cn p @ [WgDone, Cancel (connection_ctx r)],
        Some p, snd (snd (HandlerFunc env st r)))" by blast
  let ?mid = "GoKeepalive (connection_ctx r) # t @ teardown (teardown_time r) cn p"
  let ?fin = "[WgDone, Cancel (connection_ctx r)] :: ('a, 'b) event list"
  have eq: "fst (HandlerFunc env st r) =
      [LogDebug ''upgrading connection'', Accept (acceptOptions env (User_Agent r)), WgAdd 1] @
      ?mid @ ?fin"
    by (subst h) simp
  have mid: "\<forall>e \<in> set ?mid. \<not> wg_event e"
    using t by (auto dest: loop_event_not_wg teardown_not_wg)
  have fin: "?fin = [] \<or> (\<exists>c. ?fin = [WgDone, c] \<and> \<not> wg_event c)"
    by simp
  have len: "length (fst (HandlerFunc env st r)) = 3 + length ?mid + 2"
    by (subst eq) simp
  have "wg_counter (take n (fst (HandlerFunc env st r))) =
      (if n < 3 then 0 else if ?fin = [] \<or> n \<le> 3 + length ?mid then 1 else 0)"
    by (subst eq, rule wg_counter_prefix [OF mid _ _ fin]) simp_all
  with False len show ?thesis by auto
qed

lemma conn_counter_rejected:
  assumes "Accept_result r = Inl e"
  shows "wg_counter (take n (fst (HandlerFunc env st r))) = 0"
  by (rule wg_counter_none) (auto simp: HandlerFunc_rejected [OF assms] dest!: in_set_takeD)

lemma conn_counter_nonneg: "0 \<le> wg_counter (take n (fst (HandlerFunc env st r)))"
  by (cases "Accept_result r") (simp_all add: conn_counter_rejected conn_counter_accepted)

lemma conn_wg_events:
  "filter wg_event (fst (HandlerFunc env st r)) =
     (case Accept_result r of
        Inl e \<Rightarrow> []
      | Inr cn \<Rightarrow>
          if snd (snd (HandlerFunc env st r)) = Blocked then [WgAdd 1] else [WgAdd 1, WgDone])"
proof (cases "Accept_result r")
  case (Inl e)
  then show ?thesis by (simp add: HandlerFunc_rejected [OF Inl])
next
  case (Inr cn)
  show ?thesis
  proof (cases "snd (snd (HandlerFunc env st r)) = Blocked")
    case True
    from HandlerFunc_blocked [OF Inr True] obtain t p where
      t: "\<forall>e \<in> set t. loop_event e" and
      h: "HandlerFunc env st r =
       ([LogDebug ''upgrading connection'', Accept (acceptOptions env (User_Agent r)),
         WgAdd 1, GoKeepalive (connection_ctx r)] @ t, Some p, Blocked)" by blast
    have "filter wg_event t = []"
      using t by (intro wg_filter_none) (auto dest: loop_event_not_wg)
    with Inr True show ?thesis by (simp add: h)
  next
    case False
    from HandlerFunc_finished [OF Inr False] obtain t p where
      t: "\<forall>e \<in> set t. loop_event e" and
      h: "HandlerFunc env st r =
       ([LogDebug ''upgrading connection'', Accept (acceptOptions env (User_Agent r)),
         WgAdd 1, GoKeepalive (connection_ctx r)] @ t @
        teardown (teardown_time r) cn p @ [WgDone, Cancel (connection_ctx r)],
        Some p, snd (snd (HandlerFunc env st r)))" by blast
    have "filter wg_event t = []"
      using t by (intro wg_filter_none) (auto dest: loop_event_not_wg)
    moreover have "filter wg_event (teardown (teardown_time r) cn p) = []"
      by (intro wg_filter_none) (auto dest: teardown_not_wg)
    moreover have "fst (HandlerFunc env st r) =
        [LogDebug ''upgrading connection'', Accept (acceptOptions env (User_Agent r)),
         WgAdd 1, GoKeepalive (connection_ctx r)] @ t @
        teardown (teardown_time r) cn p @ [WgDone, Cancel (connection_ctx r)]"
      by (subst h) simp
    ultimately show ?thesis using Inr False by simp
  qed
qed

text \<open>A pass whose read ends after the context is done, under the contract of the transport.\<close>

lemma body_dead_read:
  assumes c: "Read_honours_ctx ctx it"
    and d: "ctx_Err (Read_returns_at it) (request_done it) ctx"
  shows "\<exists>e. Read_result it = Inl e \<and>
     body env ctx cn peer it = ([ConnRead ctx cn, CallErrorAndDisconnect ctx cn e], peer, Panic)"
proof -
  from c d obtain e where e: "Read_result it = Inl e"
    by (cases "Read_result it") (auto simp: Read_honours_ctx_def)
  then have "body env ctx cn peer it = ([ConnRead ctx cn, CallErrorAndDisconnect ctx cn e], peer, Panic)"
    by (intro body_failure) simp
  with e show ?thesis by blast
qed

lemma read_loop_ended:
  assumes c: "Read_honours_ctx ctx it"
    and d: "ctx_Err (Read_returns_at it) (request_done it) ctx"
  shows "read_loop env ctx cn peer (its1 @ it # its2) = read_loop env ctx cn peer (its1 @ [it])"
    and "snd (snd (read_loop env ctx cn peer (its1 @ it # its2))) \<noteq> Blocked"
proof -
  have one: "\<And>p rest. read_loop env ctx cn p (it # rest) = read_loop env ctx cn p [it]
      \<and> snd (snd (read_loop env ctx cn p (it # rest))) \<noteq> Blocked"
  proof -
    fix p rest
    from body_dead_read [OF c d, of env cn p] obtain e where
      "body env ctx cn p it = ([ConnRead ctx cn, CallErrorAndDisconnect ctx cn e], p, Panic)"
      by blast
    then show "read_loop env ctx cn p (it # rest) = read_loop env ctx cn p [it]
      \<and> snd (snd (read_loop env ctx cn p (it # rest))) \<noteq> Blocked"
      by simp
  qed
  have e1: "\<And>p. read_loop env ctx cn p (it # its2) = read_loop env ctx cn p [it]"
    using one by blast
  show "read_loop env ctx cn peer (its1 @ it # its2) = read_loop env ctx cn peer (its1 @ [it])"
    by (simp only: read_loop_append [of _ _ _ _ its1] e1)
  obtain t p out where l: "read_loop env ctx cn peer its1 = (t, p, out)"
    by (cases "read_loop env ctx cn peer its1") auto
  obtain t' p' out' where l': "read_loop env ctx cn p (it # its2) = (t', p', out')"
    by (cases "read_loop env ctx cn p (it # its2)") auto
  have "snd (snd (read_loop env ctx cn p (it # its2))) \<noteq> Blocked"
    by (rule one [THEN conjunct2])
  then have "out' \<noteq> Blocked"
    unfolding l' by simp
  with l l' show "snd (snd (read_loop env ctx cn peer (its1 @ it # its2))) \<noteq> Blocked"
    by (cases out) (simp_all only: read_loop_append [of _ _ _ _ its1] prod.case outcome.case snd_conv, simp_all)
qed

lemma HandlerFunc_ended_at:
  assumes acc: "Accept_result r = Inr cn"
    and its: "iterations r = its1 @ it # its2"
    and c: "Read_honours_ctx (connection_ctx r) it"
    and late: "request_time r + 3600000000000 \<le> Read_returns_at it"
  shows "snd (snd (HandlerFunc env st r)) \<noteq> Blocked"
    and "HandlerFunc env st r = HandlerFunc env st (r\<lparr>iterations := its1 @ [it]\<rparr>)"
    and "\<And>tr1 p1. read_loop env (connection_ctx r) cn (new_peer st cn) its1 = (tr1, p1, Blocked) \<Longrightarrow>
           (if ctx_Err (now it) (request_done it) (connection_ctx r)
            then HandlerFunc env st r =
                   ([LogDebug ''upgrading connection'', Accept (acceptOptions env (User_Agent r)),
                     WgAdd 1, GoKeepalive (connection_ctx r)] @ tr1 @
                    teardown (teardown_time r) cn p1 @ [WgDone, Cancel (connection_ctx r)],
                    Some p1, Returned)
            else \<exists>e. Read_result it = Inl e \<and>
                   HandlerFunc env st r =
                   ([LogDebug ''upgrading connection'', Accept (acceptOptions env (User_Agent r)),
                     WgAdd 1, GoKeepalive (connection_ctx r)] @ tr1 @
                    [ConnRead (connection_ctx r) cn,
                     CallErrorAndDisconnect (connection_ctx r) cn e] @
                    teardown (teardown_time r) cn p1 @ [WgDone, Cancel (connection_ctx r)],
                    Some p1, Panicked))"
proof -
  have dead: "ctx_Err (Read_returns_at it) (request_done it) (connection_ctx r)"
    using late by (simp add: connection_ctx_def MaxConnectionTime_def Hour_def Second_def)
  let ?l = "read_loop env (connection_ctx r) cn (new_peer st cn) (iterations r)"
  have l: "?l = (fst ?l, fst (snd ?l), snd (snd ?l))" by simp
  have nb: "snd (snd ?l) \<noteq> Blocked"
    using read_loop_ended(2) [OF c dead] its by simp
  show fin: "snd (snd (HandlerFunc env st r)) \<noteq> Blocked"
    using HandlerFunc_accepted [OF acc l] nb by simp
  let ?r' = "r\<lparr>iterations := its1 @ [it]\<rparr>"
  have c': "connection_ctx ?r' = connection_ctx r"
    by (simp add: connection_ctx_def)
  have same: "read_loop env (connection_ctx ?r') cn (new_peer st cn) (iterations ?r') =
      (fst ?l, fst (snd ?l), snd (snd ?l))"
    using read_loop_ended(1) [OF c dead, of env cn "new_peer st cn" its1 its2] its
    by (simp add: c')
  have acc': "Accept_result ?r' = Inr cn" using acc by simp
  show "HandlerFunc env st r = HandlerFunc env st ?r'"
    using HandlerFunc_accepted [OF acc l] HandlerFunc_accepted [OF acc' same]
    by (simp add: c')
  fix tr1 p1
  assume pre: "read_loop env (connection_ctx r) cn (new_peer st cn) its1 = (tr1, p1, Blocked)"
  show "if ctx_Err (now it) (request_done it) (connection_ctx r)
            then HandlerFunc env st r =
                   ([LogDebug ''upgrading connection'', Accept (acceptOptions env (User_Agent r)),
                     WgAdd 1, GoKeepalive (connection_ctx r)] @ tr1 @
                    teardown (teardown_time r) cn p1 @ [WgDone, Cancel (connection_ctx r)],
                    Some p1, Returned)
            else \<exists>e. Read_result it = Inl e \<and>
                   HandlerFunc env st r =
                   ([LogDebug ''upgrading connection'', Accept (acceptOptions env (User_Agent r)),
                     WgAdd 1, GoKeepalive (connection_ctx r)] @ tr1 @
                    [ConnRead (connection_ctx r) cn,
                     CallErrorAndDisconnect (connection_ctx r) cn e] @
                    teardown (teardown_time r) cn p1 @ [WgDone, Cancel (connection_ctx r)],
                    Some p1, Panicked)"
  proof (cases "ctx_Err (now it) (request_done it) (connection_ctx r)")
    case True
    with HandlerFunc_return_at [OF acc its pre True] show ?thesis by simp
  next
    case False
    from body_dead_read [OF c dead, of env cn p1] obtain e where
      e: "Read_result it = Inl e" and
      b: "body env (connection_ctx r) cn p1 it =
        ([ConnRead (connection_ctx r) cn, CallErrorAndDisconnect (connection_ctx r) cn e], p1, Panic)"
      by blast
    from HandlerFunc_panic_at [OF acc its pre False b] e False show ?thesis by simp
  qed
qed

subsection \<open>Teardown\<close>

text \<open>
  C1. For every upgraded connection, whichever way the per-connection function ends (the
  loop test fails or a helper panics), the effects end with the deferred teardown: the
  close of the transport with status \<open>StatusInternalError\<close>, then, exactly when the peer's
  \<open>closedPacketReceived\<close> is false, \<open>TimeoutManager.Disconnected\<close> for that peer, and
  nothing before the teardown closes the transport or calls \<open>Disconnected\<close>. The context
  handed to \<open>Disconnected\<close> is built from \<open>context.Background()\<close> with a timeout of ten
  seconds: it is done exactly from ten seconds after its creation on, whatever the state
  of the request's context, and the connection's context is not among its ancestors.
\<close>

theorem teardown_on_every_exit:
  assumes acc: "Accept_result r = Inr cn"
    and run: "HandlerFunc env st r = (tr, po, out)"
    and fin: "out \<noteq> Blocked"
  shows "\<exists>peer pre. po = Some peer \<and>
     tr = pre @
       [LogInfo ''peer websocket closed'' (ID peer),
        ConnClose cn StatusInternalError ''unexpceted closure''] @
       (if closedPacketReceived peer then []
        else [Disconnected (WithTimeout (WithLogger Background) (teardown_time r) (10 * Second)) peer,
              Cancel (WithTimeout (WithLogger Background) (teardown_time r) (10 * Second))]) @
       [WgDone, Cancel (connection_ctx r)] \<and>
     (\<forall>c p. Disconnected c p \<notin> set pre) \<and> (\<forall>k s m. ConnClose k s m \<notin> set pre) \<and>
     (\<forall>t' rd. ctx_Err t' rd (WithTimeout (WithLogger Background) (teardown_time r) (10 * Second))
               = (teardown_time r + 10000000000 \<le> t')) \<and>
     connection_ctx r \<notin>
       set (ancestors (WithTimeout (WithLogger Background) (teardown_time r) (10 * Second)))"
proof -
  obtain t p out' where l:
    "read_loop env (connection_ctx r) cn (new_peer st cn) (iterations r) = (t, p, out')"
    by (cases "read_loop env (connection_ctx r) cn (new_peer st cn) (iterations r)") auto
  let ?pre = "[LogDebug ''upgrading connection'', Accept (acceptOptions env (User_Agent r)),
             WgAdd 1, GoKeepalive (connection_ctx r)] @ t"
  from HandlerFunc_accepted [OF acc l] run fin
  have po: "po = Some p"
    and tr: "tr = ?pre @ teardown (teardown_time r) cn p @ [WgDone, Cancel (connection_ctx r)]"
    by (auto split: if_splits)
  have "\<forall>e \<in> set t. loop_event e" using read_loop_events [OF l] by blast
  then have "(\<forall>c p. Disconnected c p \<notin> set ?pre) \<and> (\<forall>k s m. ConnClose k s m \<notin> set ?pre)"
    by auto
  moreover have "\<forall>t' rd. ctx_Err t' rd (WithTimeout (WithLogger Background) (teardown_time r) (10 * Second))
               = (teardown_time r + 10000000000 \<le> t')"
    by (simp add: Second_def)
  moreover have "connection_ctx r \<notin>
       set (ancestors (WithTimeout (WithLogger Background) (teardown_time r) (10 * Second)))"
    by (simp add: connection_ctx_def)
  ultimately show ?thesis using po tr
    by (intro exI [of _ p] exI [of _ ?pre]) (simp add: teardown_def Let_def)
qed

text \<open>
  A connection that says hello and then breaks: the read error ends the function by a
  panic, and the teardown runs with \<open>Disconnected\<close>.
\<close>

theorem teardown_on_every_exit_witness:
  \<open>\<exists>pre. HandlerFunc example_env (Store 0)
       (example_request ''Mozilla/5.0 Firefox/120.0''
          [frame Second ''{"type":"hello"}'', read_failure (2 * Second)]) =
     (pre @
       [LogInfo ''peer websocket closed'' ''peer-1'',
        ConnClose (Conn 1) StatusInternalError ''unexpceted closure'',
        Disconnected (WithTimeout (WithLogger Background) (5 * Second) (10 * Second))
          \<lparr>store = Store 0, conn = Conn 1, ID = ''peer-1'', closedPacketReceived = False,
           retrievedIDCallback = Some ManagerReconnected\<rparr>,
        Cancel (WithTimeout (WithLogger Background) (5 * Second) (10 * Second)),
        WgDone, Cancel (WithTimeout RequestContext 0 MaxConnectionTime)],
      Some \<lparr>store = Store 0, conn = Conn 1, ID = ''peer-1'', closedPacketReceived = False,
           retrievedIDCallback = Some ManagerReconnected\<rparr>,
      Panicked)\<close>
proof -
  let ?r = \<open>example_request ''Mozilla/5.0 Firefox/120.0''
          [frame Second ''{"type":"hello"}'', read_failure (2 * Second)]\<close>
  let ?p = "\<lparr>store = Store 0, conn = Conn 1, ID = ''peer-1'', closedPacketReceived = False,
           retrievedIDCallback = Some ManagerReconnected\<rparr>"
  let ?H = "HandlerFunc example_env (Store 0) ?r"
  have acc: "Accept_result ?r = Inr (Conn 1)"
    by (simp add: example_request_def)
  have run: "?H = (fst ?H, Some ?p, Panicked)"
    by (simp add: handler_defs example_defs Let_def)
  have fin: "Panicked \<noteq> Blocked"
    by simp
  from teardown_on_every_exit [OF acc run fin]
  obtain peer pre where "Some ?p = Some peer" and
    "fst ?H = pre @
       [LogInfo ''peer websocket closed'' (ID peer),
        ConnClose (Conn 1) StatusInternalError ''unexpceted closure''] @
       (if closedPacketReceived peer then []
        else [Disconnected (WithTimeout (WithLogger Background) (teardown_time ?r) (10 * Second)) peer,
              Cancel (WithTimeout (WithLogger Background) (teardown_time ?r) (10 * Second))]) @
       [WgDone, Cancel (connection_ctx ?r)]"
    by blast
  then have "fst ?H = pre @
       [LogInfo ''peer websocket closed'' ''peer-1'',
        ConnClose (Conn 1) StatusInternalError ''unexpceted closure'',
        Disconnected (WithTimeout (WithLogger Background) (5 * Second) (10 * Second)) ?p,
        Cancel (WithTimeout (WithLogger Background) (5 * Second) (10 * Second)),
        WgDone, Cancel (WithTimeout RequestContext 0 MaxConnectionTime)]"
    by (auto simp: example_request_def connection_ctx_def)
  with run show ?thesis
    by (metis (no_types, lifting))
qed

subsection \<open>The upgrade\<close>

text \<open>
  C10. Every upgrade is attempted with \<open>InsecureSkipVerify\<close> set, so no origin is refused.
  The compression mode is \<open>websocket.CompressionDisabled\<close> when the lowercased User-Agent
  contains "safari" and neither "chrome" nor "android", and the zero value of the field
  (the library's default) otherwise. These options are what the per-connection function
  passes to \<open>websocket.Accept\<close>, right after its first log line.
\<close>

theorem accept_options_by_user_agent:
  "InsecureSkipVerify (acceptOptions env ua) = True \<and>
   CompressionMode (acceptOptions env ua) =
     (if Contains (ToLower env ua) ''safari'' \<and> \<not> Contains (ToLower env ua) ''chrome''
          \<and> \<not> Contains (ToLower env ua) ''android''
      then CompressionDisabled env else 0) \<and>
   take 2 (fst (HandlerFunc env st r)) =
     [LogDebug ''upgrading connection'', Accept (acceptOptions env (User_Agent r))]"
  by (simp add: acceptOptions_def isSafari_def HandlerFunc_def Let_def ErrorAndAbort_def
           split: sum.splits prod.splits outcome.splits)

text \<open>Safari on a Mac has compression disabled; Chrome, whose User-Agent names Safari too, has not.\<close>

theorem accept_options_by_user_agent_witness:
  "CompressionMode (acceptOptions example_env
      ''Mozilla/5.0 (Macintosh) AppleWebKit/605.1.15 Version/17.0 Safari/605.1.15'') = 2 \<and>
   CompressionMode (acceptOptions example_env
      ''Mozilla/5.0 (X11; Linux) AppleWebKit/537.36 Chrome/120.0 Safari/537.36'') = 0"
proof -
  let ?safari = "''Mozilla/5.0 (Macintosh) AppleWebKit/605.1.15 Version/17.0 Safari/605.1.15''"
  let ?chrome = "''Mozilla/5.0 (X11; Linux) AppleWebKit/537.36 Chrome/120.0 Safari/537.36''"
  let ?r = "example_request [] [] :: string request"
  have env: "ToLower example_env = ascii_ToLower" "CompressionDisabled example_env = 2"
    by (simp_all add: example_env_def)
  have "CompressionMode (acceptOptions example_env ?safari) =
     (if Contains (ascii_ToLower ?safari) ''safari'' \<and> \<not> Contains (ascii_ToLower ?safari) ''chrome''
          \<and> \<not> Contains (ascii_ToLower ?safari) ''android'' then 2 else 0)"
    using accept_options_by_user_agent [of example_env ?safari "Store 0" ?r]
    by (simp only: env)
  moreover have "CompressionMode (acceptOptions example_env ?chrome) =
     (if Contains (ascii_ToLower ?chrome) ''safari'' \<and> \<not> Contains (ascii_ToLower ?chrome) ''chrome''
          \<and> \<not> Contains (ascii_ToLower ?chrome) ''android'' then 2 else 0)"
    using accept_options_by_user_agent [of example_env ?chrome "Store 0" ?r]
    by (simp only: env)
  ultimately show ?thesis
    by (simp add: ascii_ToLower_def lower_table_def)
qed

subsection \<open>The read loop\<close>

text \<open>
  C5. The first thing decoded from a frame is its \<open>type\<close> alone. When \<open>conn.Read\<close> fails,
  or the frame fails this decode, the pass calls \<open>util.ErrorAndDisconnect\<close> and nothing
  else: the per-connection function ends by the panic, the next effects are those of the
  teardown, and the rest of the script is never read (no retry). When the type is known
  and no close packet was received, the pass is the read followed by the type switch on
  that type; and an effect of a switch branch occurs in a pass only if the read and the
  type decode both succeeded.
\<close>

theorem read_and_decode_failures_terminate:
  assumes acc: "Accept_result r = Inr cn"
    and its: "iterations r = its1 @ it # its2"
    and pre: "read_loop env (connection_ctx r) cn (new_peer st cn) its1 = (tr1, p1, Blocked)"
    and live: "\<not> ctx_Err (now it) (request_done it) (connection_ctx r)"
  shows "(\<forall>e. Read_result it = Inl e \<or>
              (\<exists>raw. Read_result it = Inr raw \<and> Unmarshal_typeOnly env raw = Inl e) \<longrightarrow>
          HandlerFunc env st r =
            ([LogDebug ''upgrading connection'', Accept (acceptOptions env (User_Agent r)),
              WgAdd 1, GoKeepalive (connection_ctx r)] @ tr1 @
             [ConnRead (connection_ctx r) cn, CallErrorAndDisconnect (connection_ctx r) cn e] @
             teardown (teardown_time r) cn p1 @ [WgDone, Cancel (connection_ctx r)],
             Some p1, Panicked)) \<and>
         (\<forall>raw ty. Read_result it = Inr raw \<and> Unmarshal_typeOnly env raw = Inr ty
              \<and> \<not> closedPacketReceived p1 \<longrightarrow>
          body env (connection_ctx r) cn p1 it =
            (case dispatch env (connection_ctx r) cn p1 it ty raw of
               (tr, p2, fl) \<Rightarrow> (ConnRead (connection_ctx r) cn # tr, p2, fl))) \<and>
         (\<forall>ev \<in> set (fst (body env (connection_ctx r) cn p1 it)). dispatch_event ev \<longrightarrow>
            (\<exists>raw ty. Read_result it = Inr raw \<and> Unmarshal_typeOnly env raw = Inr ty))"
proof (intro conjI allI impI)
  fix e
  assume "Read_result it = Inl e \<or>
              (\<exists>raw. Read_result it = Inr raw \<and> Unmarshal_typeOnly env raw = Inl e)"
  from HandlerFunc_panic_at [OF acc its pre live body_failure [OF this]]
  show "HandlerFunc env st r =
            ([LogDebug ''upgrading connection'', Accept (acceptOptions env (User_Agent r)),
              WgAdd 1, GoKeepalive (connection_ctx r)] @ tr1 @
             [ConnRead (connection_ctx r) cn, CallErrorAndDisconnect (connection_ctx r) cn e] @
             teardown (teardown_time r) cn p1 @ [WgDone, Cancel (connection_ctx r)],
             Some p1, Panicked)" by simp
next
  fix raw ty
  assume "Read_result it = Inr raw \<and> Unmarshal_typeOnly env raw = Inr ty
              \<and> \<not> closedPacketReceived p1"
  then show "body env (connection_ctx r) cn p1 it =
            (case dispatch env (connection_ctx r) cn p1 it ty raw of
               (tr, p2, fl) \<Rightarrow> (ConnRead (connection_ctx r) cn # tr, p2, fl))"
    by (simp add: body_def)
next
  show "\<forall>ev \<in> set (fst (body env (connection_ctx r) cn p1 it)). dispatch_event ev \<longrightarrow>
            (\<exists>raw ty. Read_result it = Inr raw \<and> Unmarshal_typeOnly env raw = Inr ty)"
    by (auto simp: body_def ErrorAndDisconnect_def split: sum.splits)
qed

text \<open>A frame that is not JSON, after a hello: the connection ends there, the pong is never read.\<close>

theorem read_and_decode_failures_terminate_witness:
  \<open>HandlerFunc example_env (Store 0)
     (example_request ''Mozilla/5.0 Firefox/120.0''
        [frame Second ''{"type":"hello"}'', frame (2 * Second) ''not json'',
         frame (3 * Second) ''{"type":"pong"}'']) =
   ([LogDebug ''upgrading connection'',
     Accept \<lparr>InsecureSkipVerify = True, CompressionMode = 0\<rparr>,
     WgAdd 1, GoKeepalive (WithTimeout RequestContext 0 MaxConnectionTime),
     ConnRead (WithTimeout RequestContext 0 MaxConnectionTime) (Conn 1),
     HandlePacket (WithTimeout RequestContext 0 MaxConnectionTime) ''hello'' ''{"type":"hello"}'',
     ConnRead (WithTimeout RequestContext 0 MaxConnectionTime) (Conn 1),
     CallErrorAndDisconnect (WithTimeout RequestContext 0 MaxConnectionTime) (Conn 1)
       ''invalid character'',
     LogInfo ''peer websocket closed'' ''peer-1'',
     ConnClose (Conn 1) StatusInternalError ''unexpceted closure'',
     Disconnected (WithTimeout (WithLogger Background) (5 * Second) (10 * Second))
       \<lparr>store = Store 0, conn = Conn 1, ID = ''peer-1'', closedPacketReceived = False,
        retrievedIDCallback = Some ManagerReconnected\<rparr>,
     Cancel (WithTimeout (WithLogger Background) (5 * Second) (10 * Second)),
     WgDone, Cancel (WithTimeout RequestContext 0 MaxConnectionTime)],
    Some \<lparr>store = Store 0, conn = Conn 1, ID = ''peer-1'', closedPacketReceived = False,
          retrievedIDCallback = Some ManagerReconnected\<rparr>,
    Panicked)\<close>
proof -
  let ?hello = \<open>frame Second ''{"type":"hello"}''\<close>
  let ?it = "frame (2 * Second) ''not json''"
  let ?pong = \<open>frame (3 * Second) ''{"type":"pong"}''\<close>
  let ?r = "example_request ''Mozilla/5.0 Firefox/120.0'' [?hello, ?it, ?pong]"
  let ?p = "\<lparr>store = Store 0, conn = Conn 1, ID = ''peer-1'', closedPacketReceived = False,
           retrievedIDCallback = Some ManagerReconnected\<rparr>"
  have acc: "Accept_result ?r = Inr (Conn 1)"
    by (simp add: example_request_def)
  have its: "iterations ?r = [?hello] @ ?it # [?pong]"
    by (simp add: example_request_def)
  have pre: \<open>read_loop example_env (connection_ctx ?r) (Conn 1) (new_peer (Store 0) (Conn 1)) [?hello] =
      ([ConnRead (connection_ctx ?r) (Conn 1),
        HandlePacket (connection_ctx ?r) ''hello'' ''{"type":"hello"}''], ?p, Blocked)\<close>
    by (simp add: handler_defs example_defs)
  have live: "\<not> ctx_Err (now ?it) (request_done ?it) (connection_ctx ?r)"
    by (simp add: handler_defs example_defs)
  have bad: "Read_result ?it = Inl ''invalid character'' \<or>
      (\<exists>raw. Read_result ?it = Inr raw \<and> Unmarshal_typeOnly example_env raw = Inl ''invalid character'')"
    by (simp add: example_defs)
  note e = read_and_decode_failures_terminate
    [OF acc its pre live, THEN conjunct1, rule_format, OF bad]
  show ?thesis
    unfolding e
    by (simp add: teardown_def connection_ctx_def acceptOptions_def isSafari_def Let_def
          example_request_def example_env_def ascii_ToLower_def lower_table_def)
qed

text \<open>
  C9. With the close packet already received, a pass whose \<open>conn.Read\<close> fails or whose
  frame fails the type decode still calls \<open>util.ErrorAndDisconnect\<close>: the function ends by
  the panic and the teardown closes the transport (without \<open>Disconnected\<close>, since the close
  packet was received). No "received packet after close" warning is logged for that pass:
  both checks come before the test of \<open>closedPacketReceived\<close>.
\<close>

theorem failures_after_close_terminate:
  assumes acc: "Accept_result r = Inr cn"
    and its: "iterations r = its1 @ it # its2"
    and pre: "read_loop env (connection_ctx r) cn (new_peer st cn) its1 = (tr1, p1, Blocked)"
    and closed: "closedPacketReceived p1"
    and live: "\<not> ctx_Err (now it) (request_done it) (connection_ctx r)"
    and bad: "Read_result it = Inl e \<or>
              (\<exists>raw. Read_result it = Inr raw \<and> Unmarshal_typeOnly env raw = Inl e)"
  shows "HandlerFunc env st r =
     ([LogDebug ''upgrading connection'', Accept (acceptOptions env (User_Agent r)),
       WgAdd 1, GoKeepalive (connection_ctx r)] @ tr1 @
      [ConnRead (connection_ctx r) cn, CallErrorAndDisconnect (connection_ctx r) cn e,
       LogInfo ''peer websocket closed'' (ID p1),
       ConnClose cn StatusInternalError ''unexpceted closure'',
       WgDone, Cancel (connection_ctx r)], Some p1, Panicked)"
  using HandlerFunc_panic_at [OF acc its pre live body_failure [OF bad]] closed
  by (simp add: teardown_def)

text \<open>A hello, a close, then a read error.\<close>

theorem failures_after_close_terminate_witness:
  \<open>HandlerFunc example_env (Store 0)
     (example_request ''Mozilla/5.0 Firefox/120.0''
        [frame Second ''{"type":"hello"}'', frame (2 * Second) ''{"type":"close"}'',
         read_failure (3 * Second)]) =
   ([LogDebug ''upgrading connection'',
     Accept \<lparr>InsecureSkipVerify = True, CompressionMode = 0\<rparr>,
     WgAdd 1, GoKeepalive (WithTimeout RequestContext 0 MaxConnectionTime),
     ConnRead (WithTimeout RequestContext 0 MaxConnectionTime) (Conn 1),
     HandlePacket (WithTimeout RequestContext 0 MaxConnectionTime) ''hello'' ''{"type":"hello"}'',
     ConnRead (WithTimeout RequestContext 0 MaxConnectionTime) (Conn 1),
     HandlePacket (WithTimeout RequestContext 0 MaxConnectionTime) ''close'' ''{"type":"close"}'',
     ConnRead (WithTimeout RequestContext 0 MaxConnectionTime) (Conn 1),
     CallErrorAndDisconnect (WithTimeout RequestContext 0 MaxConnectionTime) (Conn 1) ''EOF'',
     LogInfo ''peer websocket closed'' ''peer-1'',
     ConnClose (Conn 1) StatusInternalError ''unexpceted closure'',
     WgDone, Cancel (WithTimeout RequestContext 0 MaxConnectionTime)],
    Some \<lparr>store = Store 0, conn = Conn 1, ID = ''peer-1'', closedPacketReceived = True,
          retrievedIDCallback = Some ManagerReconnected\<rparr>,
    Panicked)\<close>
proof -
  let ?hello = \<open>frame Second ''{"type":"hello"}''\<close>
  let ?close = \<open>frame (2 * Second) ''{"type":"close"}''\<close>
  let ?it = "read_failure (3 * Second)"
  let ?r = "example_request ''Mozilla/5.0 Firefox/120.0'' [?hello, ?close, ?it]"
  let ?p = "\<lparr>store = Store 0, conn = Conn 1, ID = ''peer-1'', closedPacketReceived = True,
           retrievedIDCallback = Some ManagerReconnected\<rparr>"
  have acc: "Accept_result ?r = Inr (Conn 1)"
    by (simp add: example_request_def)
  have its: "iterations ?r = [?hello, ?close] @ ?it # []"
    by (simp add: example_request_def)
  have pre: \<open>read_loop example_env (connection_ctx ?r) (Conn 1) (new_peer (Store 0) (Conn 1))
        [?hello, ?close] =
      ([ConnRead (connection_ctx ?r) (Conn 1),
        HandlePacket (connection_ctx ?r) ''hello'' ''{"type":"hello"}'',
        ConnRead (connection_ctx ?r) (Conn 1),
        HandlePacket (connection_ctx ?r) ''close'' ''{"type":"close"}''], ?p, Blocked)\<close>
    by (simp add: handler_defs example_defs)
  have closed: "closedPacketReceived ?p"
    by simp
  have live: "\<not> ctx_Err (now ?it) (request_done ?it) (connection_ctx ?r)"
    by (simp add: handler_defs example_defs)
  have bad: "Read_result ?it = Inl ''EOF'' \<or>
      (\<exists>raw. Read_result ?it = Inr raw \<and> Unmarshal_typeOnly example_env raw = Inl ''EOF'')"
    by (simp add: example_defs)
  note e = failures_after_close_terminate [OF acc its pre closed live bad]
  show ?thesis
    unfolding e
    by (simp add: connection_ctx_def acceptOptions_def isSafari_def Let_def
          example_request_def example_env_def ascii_ToLower_def lower_table_def)
qed

text \<open>
  C3. From a pass on at which \<open>closedPacketReceived\<close> is set, the flag stays set and the
  peer unchanged, and the loop performs nothing but reads, the warning "received packet
  after close" and, at a failing read or decode, \<open>util.ErrorAndDisconnect\<close>: a frame whose
  type decodes is logged and dropped, and no branch of the type switch (credentials,
  event, pong, \<open>Peer.HandlePacket\<close>) is entered.
\<close>

theorem packets_after_close_dropped:
  assumes closed: "closedPacketReceived peer"
    and run: "read_loop env ctx cn peer its = (tr, peer', out)"
  shows "peer' = peer \<and> (\<forall>e \<in> set tr. after_close_event e) \<and>
     (\<forall>it \<in> set its. \<forall>raw ty.
        Read_result it = Inr raw \<and> Unmarshal_typeOnly env raw = Inr ty \<longrightarrow>
        body env ctx cn peer it =
          ([ConnRead ctx cn, LogWarn ''received packet after close'' (ID peer) ty],
           peer, Continue))"
  using read_loop_closed [OF closed run] by (auto simp: body_closed [OF closed])

text \<open>After the close packet, a credentials request and an event are only logged.\<close>

theorem packets_after_close_dropped_witness:
  \<open>read_loop example_env (WithTimeout RequestContext 0 MaxConnectionTime) (Conn 1)
     ((new_peer (Store 0) (Conn 1))\<lparr>closedPacketReceived := True\<rparr>)
     [frame Second ''{"type":"credentials"}'',
      frame (2 * Second) ''{"type":"event","action":"start"}''] =
   ([ConnRead (WithTimeout RequestContext 0 MaxConnectionTime) (Conn 1),
     LogWarn ''received packet after close'' [] ''credentials'',
     ConnRead (WithTimeout RequestContext 0 MaxConnectionTime) (Conn 1),
     LogWarn ''received packet after close'' [] ''event''],
    (new_peer (Store 0) (Conn 1))\<lparr>closedPacketReceived := True\<rparr>, Blocked) \<and>
   body example_env (WithTimeout RequestContext 0 MaxConnectionTime) (Conn 1)
     ((new_peer (Store 0) (Conn 1))\<lparr>closedPacketReceived := True\<rparr>)
     (frame Second ''{"type":"credentials"}'') =
   ([ConnRead (WithTimeout RequestContext 0 MaxConnectionTime) (Conn 1),
     LogWarn ''received packet after close'' [] ''credentials''],
    (new_peer (Store 0) (Conn 1))\<lparr>closedPacketReceived := True\<rparr>, Continue)\<close>
proof -
  let ?c = "WithTimeout RequestContext 0 MaxConnectionTime"
  let ?p = "(new_peer (Store 0) (Conn 1))\<lparr>closedPacketReceived := True\<rparr>"
  let ?cred = \<open>frame Second ''{"type":"credentials"}'' :: string iteration\<close>
  let ?its = \<open>[?cred, frame (2 * Second) ''{"type":"event","action":"start"}'']\<close>
  let ?tr = "[ConnRead ?c (Conn 1), LogWarn ''received packet after close'' [] ''credentials'',
     ConnRead ?c (Conn 1), LogWarn ''received packet after close'' [] ''event'']
     :: (string, string) event list"
  have closed: "closedPacketReceived ?p"
    by simp
  have run: "read_loop example_env ?c (Conn 1) ?p ?its = (?tr, ?p, Blocked)"
    by (simp add: handler_defs example_defs)
  have fr: \<open>Read_result ?cred = Inr ''{"type":"credentials"}'' \<and>
      Unmarshal_typeOnly example_env ''{"type":"credentials"}'' = Inr ''credentials''\<close>
    by (simp add: example_defs)
  have mem: "?cred \<in> set ?its"
    by simp
  from packets_after_close_dropped [OF closed run]
  have "\<forall>it \<in> set ?its. \<forall>raw ty.
        Read_result it = Inr raw \<and> Unmarshal_typeOnly example_env raw = Inr ty \<longrightarrow>
        body example_env ?c (Conn 1) ?p it =
          ([ConnRead ?c (Conn 1), LogWarn ''received packet after close'' (ID ?p) ty],
           ?p, Continue)"
    by blast
  from this [rule_format, OF mem fr] run show ?thesis
    by (simp add: new_peer_def)
qed

subsection \<open>The type switch\<close>



text \<open>
  C2, as amended. The branch of the type switch for "event" decodes the telemetry
  parameters from the frame. If this decode fails, the pass calls
  \<open>util.ErrorAndDisconnect\<close> and the connection is terminated. If it succeeds, the
  parameters are handed to \<open>metrics.RecordEvent\<close> in a goroutine of its own, nothing is
  sent to the client, the peer is unchanged and the loop goes on with the next frame:
  nothing of what the sink does comes back into the loop.
\<close>

theorem event_frame_handling:
  "dispatch env ctx cn peer it ''event'' raw =
     (case Unmarshal_EventParams env raw of
        Inl e \<Rightarrow> ([CallErrorAndDisconnect ctx cn e], peer, Panic)
      | Inr params \<Rightarrow> ([GoRecordEvent ctx params], peer, Continue)) \<and>
   (\<not> ctx_Err (now it) (request_done it) ctx \<and> Read_result it = Inr raw \<and>
    Unmarshal_typeOnly env raw = Inr ''event'' \<and> \<not> closedPacketReceived peer \<longrightarrow>
      (\<forall>params. Unmarshal_EventParams env raw = Inr params \<longrightarrow>
         read_loop env ctx cn peer (it # its) =
           (case read_loop env ctx cn peer its of
              (tr, p, out) \<Rightarrow> ([ConnRead ctx cn, GoRecordEvent ctx params] @ tr, p, out))) \<and>
      (\<forall>e. Unmarshal_EventParams env raw = Inl e \<longrightarrow>
         read_loop env ctx cn peer (it # its) =
           ([ConnRead ctx cn, CallErrorAndDisconnect ctx cn e], peer, Panicked)))"
proof (intro conjI impI allI)
  show "dispatch env ctx cn peer it ''event'' raw =
     (case Unmarshal_EventParams env raw of
        Inl e \<Rightarrow> ([CallErrorAndDisconnect ctx cn e], peer, Panic)
      | Inr params \<Rightarrow> ([GoRecordEvent ctx params], peer, Continue))"
    by (rule dispatch_event_frame)
next
  fix params
  assume h: "\<not> ctx_Err (now it) (request_done it) ctx \<and> Read_result it = Inr raw \<and>
    Unmarshal_typeOnly env raw = Inr ''event'' \<and> \<not> closedPacketReceived peer"
    and s: "Unmarshal_EventParams env raw = Inr params"
  then have "body env ctx cn peer it = ([ConnRead ctx cn, GoRecordEvent ctx params], peer, Continue)"
    by (simp add: body_open [of it raw env "''event''"] dispatch_event_frame)
  with h show "read_loop env ctx cn peer (it # its) =
           (case read_loop env ctx cn peer its of
              (tr, p, out) \<Rightarrow> ([ConnRead ctx cn, GoRecordEvent ctx params] @ tr, p, out))"
    by (simp add: read_loop_continue)
next
  fix e
  assume h: "\<not> ctx_Err (now it) (request_done it) ctx \<and> Read_result it = Inr raw \<and>
    Unmarshal_typeOnly env raw = Inr ''event'' \<and> \<not> closedPacketReceived peer"
    and f: "Unmarshal_EventParams env raw = Inl e"
  then have "body env ctx cn peer it = ([ConnRead ctx cn, CallErrorAndDisconnect ctx cn e], peer, Panic)"
    by (simp add: body_open [of it raw env "''event''"] dispatch_event_frame)
  with h show "read_loop env ctx cn peer (it # its) =
           ([ConnRead ctx cn, CallErrorAndDisconnect ctx cn e], peer, Panicked)"
    by simp
qed

text \<open>An event whose parameters decode is handed over, and the loop reads on.\<close>

theorem event_frame_handling_witness:
  \<open>read_loop example_env (WithTimeout RequestContext 0 MaxConnectionTime) (Conn 1)
     (new_peer (Store 0) (Conn 1))
     [frame Second ''{"type":"event","action":"start"}'',
      frame (2 * Second) ''{"type":"pong"}''] =
   ([ConnRead (WithTimeout RequestContext 0 MaxConnectionTime) (Conn 1),
     GoRecordEvent (WithTimeout RequestContext 0 MaxConnectionTime) ''start'',
     ConnRead (WithTimeout RequestContext 0 MaxConnectionTime) (Conn 1)],
    new_peer (Store 0) (Conn 1), Blocked)\<close>
proof -
  let ?c = "WithTimeout RequestContext 0 MaxConnectionTime"
  let ?p = "new_peer (Store 0) (Conn 1)"
  let ?it = \<open>frame Second ''{"type":"event","action":"start"}''\<close>
  let ?its = \<open>[frame (2 * Second) ''{"type":"pong"}'']\<close>
  have h: \<open>\<not> ctx_Err (now ?it) (request_done ?it) ?c \<and>
      Read_result ?it = Inr ''{"type":"event","action":"start"}'' \<and>
      Unmarshal_typeOnly example_env ''{"type":"event","action":"start"}'' = Inr ''event'' \<and>
      \<not> closedPacketReceived ?p\<close>
    by (simp add: handler_defs example_defs)
  have s: \<open>Unmarshal_EventParams example_env ''{"type":"event","action":"start"}'' = Inr ''start''\<close>
    by (simp add: example_defs)
  have rest: "read_loop example_env ?c (Conn 1) ?p ?its =
      ([ConnRead ?c (Conn 1)] :: (string, string) event list, ?p, Blocked)"
    by (simp add: handler_defs example_defs)
  note e = event_frame_handling [where its = "?its", THEN conjunct2, rule_format, OF h, THEN conjunct1,
      rule_format, OF s]
  show ?thesis
    unfolding e rest by simp
qed

text \<open>
  C2 as stated fails: a frame of type "event" whose parameters do not decode terminates
  the connection. Here the frame after it is never read and the teardown runs.
\<close>

theorem event_decode_failure_terminates:
  \<open>Unmarshal_typeOnly example_env ''{"type":"event","action":5}'' = Inr ''event'' \<and>
   HandlerFunc example_env (Store 0)
     (example_request ''Mozilla/5.0 Firefox/120.0''
        [frame Second ''{"type":"event","action":5}'',
         frame (2 * Second) ''{"type":"pong"}'']) =
   ([LogDebug ''upgrading connection'',
     Accept \<lparr>InsecureSkipVerify = True, CompressionMode = 0\<rparr>,
     WgAdd 1, GoKeepalive (WithTimeout RequestContext 0 MaxConnectionTime),
     ConnRead (WithTimeout RequestContext 0 MaxConnectionTime) (Conn 1),
     CallErrorAndDisconnect (WithTimeout RequestContext 0 MaxConnectionTime) (Conn 1)
       ''json: cannot unmarshal number into Go struct field'',
     LogInfo ''peer websocket closed'' [],
     ConnClose (Conn 1) StatusInternalError ''unexpceted closure'',
     Disconnected (WithTimeout (WithLogger Background) (5 * Second) (10 * Second))
       (new_peer (Store 0) (Conn 1)),
     Cancel (WithTimeout (WithLogger Background) (5 * Second) (10 * Second)),
     WgDone, Cancel (WithTimeout RequestContext 0 MaxConnectionTime)],
    Some (new_peer (Store 0) (Conn 1)), Panicked)\<close>
  by (simp add: handler_defs example_defs Let_def)

subsection \<open>The keepalive task\<close>

text \<open>
  C6. Every connection has its keepalive task: the per-connection function starts exactly
  one after a successful upgrade (none when the upgrade fails), with the connection's
  context. The task creates a ticker of 30 seconds and then, at every wake-up of its
  \<open>select\<close> that takes the ticker's case, sends one \<open>PingPacket\<close> of type "ping". A send
  that fails with an error that is not a pipe error is logged; one that fails with a pipe
  error is not; in both cases the task goes on with the next wake-up. The task returns,
  stopping its ticker, at the first wake-up that takes the case \<open>ctx.Done()\<close>, and that
  case is taken only when the connection's context is done (cancelled by the
  per-connection function, or the request's context done, or one hour after its
  creation); the ticker's case is taken whenever a tick waits and the context is not done.
\<close>

theorem keepalive_pings:
  "connection_keepalive env st r ws =
     (case Accept_result r of
        Inl e \<Rightarrow> []
      | Inr cn \<Rightarrow> [keepalive env (connection_ctx r) ws]) \<and>
   keepalive env ctx ws =
     (NewTicker (30 * Second) #
      concat (map (\<lambda>w. if select_case ctx w = TickerC
                        then PeerSend ctx (PingPacket ''ping'') #
                             (case ping_result w of
                                None \<Rightarrow> []
                              | Some e \<Rightarrow>
                                  if IsPipeError env e then []
                                  else [LogError ''failed to send ping packet'' (peer_ID w) e])
                        else [])
                  (takeWhile (\<lambda>w. select_case ctx w \<noteq> CtxDone) ws)) @
      (if \<exists>w \<in> set ws. select_case ctx w = CtxDone then [TickerStop] else []),
      \<exists>w \<in> set ws. select_case ctx w = CtxDone) \<and>
   30 * Second = 30000000000 \<and>
   (select_case ctx w = TickerC \<longleftrightarrow> tick_ready w \<and> (ctx_Done ctx w \<longrightarrow> takes_tick w)) \<and>
   (select_case ctx w = CtxDone \<longleftrightarrow> ctx_Done ctx w \<and> (tick_ready w \<longrightarrow> \<not> takes_tick w)) \<and>
   (ctx_Done (connection_ctx r) w \<longleftrightarrow>
      cancelled w \<or> parent_done w \<or> request_time r + 3600000000000 \<le> woke_at w)"
proof (intro conjI)
  show "connection_keepalive env st r ws =
     (case Accept_result r of
        Inl e \<Rightarrow> []
      | Inr cn \<Rightarrow> [keepalive env (connection_ctx r) ws])"
    by (simp add: connection_keepalive_def keepalive_contexts_HandlerFunc split: sum.splits)
next
  show "keepalive env ctx ws =
     (NewTicker (30 * Second) #
      concat (map (\<lambda>w. if select_case ctx w = TickerC
                        then PeerSend ctx (PingPacket ''ping'') #
                             (case ping_result w of
                                None \<Rightarrow> []
                              | Some e \<Rightarrow>
                                  if IsPipeError env e then []
                                  else [LogError ''failed to send ping packet'' (peer_ID w) e])
                        else [])
                  (takeWhile (\<lambda>w. select_case ctx w \<noteq> CtxDone) ws)) @
      (if \<exists>w \<in> set ws. select_case ctx w = CtxDone then [TickerStop] else []),
      \<exists>w \<in> set ws. select_case ctx w = CtxDone)"
    by (simp add: keepalive_def keepalive_loop_eq)
next
  show "30 * Second = 30000000000"
    by (simp add: Second_def)
next
  show "select_case ctx w = TickerC \<longleftrightarrow> tick_ready w \<and> (ctx_Done ctx w \<longrightarrow> takes_tick w)"
    by (simp add: select_case_def)
next
  show "select_case ctx w = CtxDone \<longleftrightarrow> ctx_Done ctx w \<and> (tick_ready w \<longrightarrow> \<not> takes_tick w)"
    by (auto simp: select_case_def)
next
  show "ctx_Done (connection_ctx r) w \<longleftrightarrow>
      cancelled w \<or> parent_done w \<or> request_time r + 3600000000000 \<le> woke_at w"
    by (auto simp: ctx_Done_def connection_ctx_def MaxConnectionTime_def Hour_def Second_def)
qed

text \<open>
  A connection that says hello and breaks. Its keepalive task is woken by three ticks, of
  which one send meets a closed pipe and one a reset connection, and then by the
  \<open>cancel()\<close> of the per-connection function.
\<close>

theorem keepalive_pings_witness:
  \<open>connection_keepalive example_env (Store 0)
     (example_request ''Mozilla/5.0 Firefox/120.0''
        [frame Second ''{"type":"hello"}'', read_failure (95 * Second)])
     [tick (30 * Second) None, tick (60 * Second) (Some ''io: read/write on closed pipe''),
      tick (90 * Second) (Some ''write: connection reset by peer''),
      handler_ended (95 * Second), tick (120 * Second) None] =
   [([NewTicker 30000000000,
      PeerSend (WithTimeout RequestContext 0 MaxConnectionTime) (PingPacket ''ping''),
      PeerSend (WithTimeout RequestContext 0 MaxConnectionTime) (PingPacket ''ping''),
      PeerSend (WithTimeout RequestContext 0 MaxConnectionTime) (PingPacket ''ping''),
      LogError ''failed to send ping packet'' ''peer-1'' ''write: connection reset by peer'',
      TickerStop], True)]\<close>
proof -
  let ?r = \<open>example_request ''Mozilla/5.0 Firefox/120.0''
        [frame Second ''{"type":"hello"}'', read_failure (95 * Second)]\<close>
  let ?ws = "[tick (30 * Second) None, tick (60 * Second) (Some ''io: read/write on closed pipe''),
      tick (90 * Second) (Some ''write: connection reset by peer''),
      handler_ended (95 * Second), tick (120 * Second) None]"
  let ?c = "connection_ctx ?r"
  have acc: "Accept_result ?r = Inr (Conn 1)"
    by (simp add: example_request_def)
  have sel: "map (select_case ?c) ?ws = [TickerC, TickerC, TickerC, CtxDone, TickerC]"
    by (simp add: select_case_def ctx_Done_def tick_def handler_ended_def connection_ctx_def
          example_request_def MaxConnectionTime_def Hour_def Second_def)
  note k = keepalive_pings [of example_env "Store 0" ?r ?ws ?c "hd ?ws"]
  have "connection_keepalive example_env (Store 0) ?r ?ws = [keepalive example_env ?c ?ws]"
    using k [THEN conjunct1] acc by simp
  also have "keepalive example_env ?c ?ws =
      ([NewTicker 30000000000,
        PeerSend ?c (PingPacket ''ping''), PeerSend ?c (PingPacket ''ping''),
        PeerSend ?c (PingPacket ''ping''),
        LogError ''failed to send ping packet'' ''peer-1'' ''write: connection reset by peer'',
        TickerStop], True)"
    unfolding k [THEN conjunct2, THEN conjunct1]
    using sel by (simp add: tick_def handler_ended_def example_env_def Second_def)
  finally show ?thesis
    by (simp add: connection_ctx_def example_request_def)
qed

subsection \<open>The lifetime of a connection\<close>

text \<open>
  C7. The connection's context is the request's context with a timeout of
  \<open>MaxConnectionTime\<close>, one hour. Let the transport honour the context in every pass, as
  its contract has it: a \<open>conn.Read\<close> that is still waiting when the context ends returns
  an error. Then a per-connection function that is still running has seen no clock
  reading at or after one hour from the creation of its context. And at the first pass
  whose read ends at or after that hour, whatever the script holds for that pass and
  after it, the function ends as if the script stopped there and the teardown runs: when
  the passes before all went through, either the loop test of that pass fails and the
  function returns, or \<open>conn.Read\<close> fails, \<open>util.ErrorAndDisconnect\<close> panics, and no frame
  is dispatched; in both cases the next effects are those of the teardown.
\<close>

theorem lifetime_ceiling:
  assumes acc: "Accept_result r = Inr cn"
    and contract: "\<forall>it \<in> set (iterations r). Read_honours_ctx (connection_ctx r) it"
  shows "connection_ctx r = WithTimeout RequestContext (request_time r) MaxConnectionTime \<and>
     MaxConnectionTime = 3600 * 1000000000 \<and>
     (snd (snd (HandlerFunc env st r)) = Blocked \<longrightarrow>
        (\<forall>it \<in> set (iterations r). Read_returns_at it < request_time r + 3600000000000)) \<and>
     (\<forall>its1 it its2.
        iterations r = its1 @ it # its2 \<and> request_time r + 3600000000000 \<le> Read_returns_at it \<longrightarrow>
        snd (snd (HandlerFunc env st r)) \<noteq> Blocked \<and>
        HandlerFunc env st r = HandlerFunc env st (r\<lparr>iterations := its1 @ [it]\<rparr>) \<and>
        (\<exists>t p. HandlerFunc env st r =
           ([LogDebug ''upgrading connection'', Accept (acceptOptions env (User_Agent r)),
             WgAdd 1, GoKeepalive (connection_ctx r)] @ t @
            teardown (teardown_time r) cn p @ [WgDone, Cancel (connection_ctx r)],
            Some p, snd (snd (HandlerFunc env st r)))) \<and>
        (\<forall>tr1 p1. read_loop env (connection_ctx r) cn (new_peer st cn) its1 = (tr1, p1, Blocked) \<longrightarrow>
           (if ctx_Err (now it) (request_done it) (connection_ctx r)
            then HandlerFunc env st r =
                   ([LogDebug ''upgrading connection'', Accept (acceptOptions env (User_Agent r)),
                     WgAdd 1, GoKeepalive (connection_ctx r)] @ tr1 @
                    teardown (teardown_time r) cn p1 @ [WgDone, Cancel (connection_ctx r)],
                    Some p1, Returned)
            else \<exists>e. Read_result it = Inl e \<and>
                   HandlerFunc env st r =
                   ([LogDebug ''upgrading connection'', Accept (acceptOptions env (User_Agent r)),
                     WgAdd 1, GoKeepalive (connection_ctx r)] @ tr1 @
                    [ConnRead (connection_ctx r) cn,
                     CallErrorAndDisconnect (connection_ctx r) cn e] @
                    teardown (teardown_time r) cn p1 @ [WgDone, Cancel (connection_ctx r)],
                    Some p1, Panicked))))"
proof -
  have ended: "\<And>its1 it its2.
      iterations r = its1 @ it # its2 \<Longrightarrow> request_time r + 3600000000000 \<le> Read_returns_at it \<Longrightarrow>
      snd (snd (HandlerFunc env st r)) \<noteq> Blocked"
  proof -
    fix its1 it its2
    assume its: "iterations r = its1 @ it # its2"
      and late: "request_time r + 3600000000000 \<le> Read_returns_at it"
    from its contract have c: "Read_honours_ctx (connection_ctx r) it" by simp
    from HandlerFunc_ended_at(1) [OF acc its c late]
    show "snd (snd (HandlerFunc env st r)) \<noteq> Blocked" .
  qed
  have alive: "snd (snd (HandlerFunc env st r)) = Blocked \<longrightarrow>
        (\<forall>it \<in> set (iterations r). Read_returns_at it < request_time r + 3600000000000)"
  proof (intro impI ballI)
    fix it
    assume b: "snd (snd (HandlerFunc env st r)) = Blocked" and m: "it \<in> set (iterations r)"
    from m obtain its1 its2 where "iterations r = its1 @ it # its2"
      by (auto dest: split_list)
    from ended [OF this] b show "Read_returns_at it < request_time r + 3600000000000"
      by (cases "request_time r + 3600000000000 \<le> Read_returns_at it") auto
  qed
  have rest: "\<forall>its1 it its2.
        iterations r = its1 @ it # its2 \<and> request_time r + 3600000000000 \<le> Read_returns_at it \<longrightarrow>
        snd (snd (HandlerFunc env st r)) \<noteq> Blocked \<and>
        HandlerFunc env st r = HandlerFunc env st (r\<lparr>iterations := its1 @ [it]\<rparr>) \<and>
        (\<exists>t p. HandlerFunc env st r =
           ([LogDebug ''upgrading connection'', Accept (acceptOptions env (User_Agent r)),
             WgAdd 1, GoKeepalive (connection_ctx r)] @ t @
            teardown (teardown_time r) cn p @ [WgDone, Cancel (connection_ctx r)],
            Some p, snd (snd (HandlerFunc env st r)))) \<and>
        (\<forall>tr1 p1. read_loop env (connection_ctx r) cn (new_peer st cn) its1 = (tr1, p1, Blocked) \<longrightarrow>
           (if ctx_Err (now it) (request_done it) (connection_ctx r)
            then HandlerFunc env st r =
                   ([LogDebug ''upgrading connection'', Accept (acceptOptions env (User_Agent r)),
                     WgAdd 1, GoKeepalive (connection_ctx r)] @ tr1 @
                    teardown (teardown_time r) cn p1 @ [WgDone, Cancel (connection_ctx r)],
                    Some p1, Returned)
            else \<exists>e. Read_result it = Inl e \<and>
                   HandlerFunc env st r =
                   ([LogDebug ''upgrading connection'', Accept (acceptOptions env (User_Agent r)),
                     WgAdd 1, GoKeepalive (connection_ctx r)] @ tr1 @
                    [ConnRead (connection_ctx r) cn,
                     CallErrorAndDisconnect (connection_ctx r) cn e] @
                    teardown (teardown_time r) cn p1 @ [WgDone, Cancel (connection_ctx r)],
                    Some p1, Panicked)))"
  proof (intro allI impI, elim conjE)
    fix its1 it its2
    assume its: "iterations r = its1 @ it # its2"
      and late: "request_time r + 3600000000000 \<le> Read_returns_at it"
    from its contract have c: "Read_honours_ctx (connection_ctx r) it" by simp
    note e = HandlerFunc_ended_at [OF acc its c late, of env st]
    from HandlerFunc_finished [OF acc e(1)] have
      "\<exists>t p. HandlerFunc env st r =
           ([LogDebug ''upgrading connection'', Accept (acceptOptions env (User_Agent r)),
             WgAdd 1, GoKeepalive (connection_ctx r)] @ t @
            teardown (teardown_time r) cn p @ [WgDone, Cancel (connection_ctx r)],
            Some p, snd (snd (HandlerFunc env st r)))" by blast
    with e(1) e(2) e(3)
    show "snd (snd (HandlerFunc env st r)) \<noteq> Blocked \<and>
        HandlerFunc env st r = HandlerFunc env st (r\<lparr>iterations := its1 @ [it]\<rparr>) \<and>
        (\<exists>t p. HandlerFunc env st r =
           ([LogDebug ''upgrading connection'', Accept (acceptOptions env (User_Agent r)),
             WgAdd 1, GoKeepalive (connection_ctx r)] @ t @
            teardown (teardown_time r) cn p @ [WgDone, Cancel (connection_ctx r)],
            Some p, snd (snd (HandlerFunc env st r)))) \<and>
        (\<forall>tr1 p1. read_loop env (connection_ctx r) cn (new_peer st cn) its1 = (tr1, p1, Blocked) \<longrightarrow>
           (if ctx_Err (now it) (request_done it) (connection_ctx r)
            then HandlerFunc env st r =
                   ([LogDebug ''upgrading connection'', Accept (acceptOptions env (User_Agent r)),
                     WgAdd 1, GoKeepalive (connection_ctx r)] @ tr1 @
                    teardown (teardown_time r) cn p1 @ [WgDone, Cancel (connection_ctx r)],
                    Some p1, Returned)
            else \<exists>e. Read_result it = Inl e \<and>
                   HandlerFunc env st r =
                   ([LogDebug ''upgrading connection'', Accept (acceptOptions env (User_Agent r)),
                     WgAdd 1, GoKeepalive (connection_ctx r)] @ tr1 @
                    [ConnRead (connection_ctx r) cn,
                     CallErrorAndDisconnect (connection_ctx r) cn e] @
                    teardown (teardown_time r) cn p1 @ [WgDone, Cancel (connection_ctx r)],
                    Some p1, Panicked)))"
      by (intro conjI allI impI) blast+
  qed
  have a: "connection_ctx r = WithTimeout RequestContext (request_time r) MaxConnectionTime"
    by (simp add: connection_ctx_def)
  have b: "MaxConnectionTime = 3600 * 1000000000"
    by (simp add: MaxConnectionTime_def Hour_def Second_def)
  show ?thesis
    by (rule conjI [OF a conjI [OF b conjI [OF alive rest]]])
qed

text \<open>
  A connection that says hello and then is silent: its \<open>conn.Read\<close> waits from the second
  second to the deadline, fails there, and the connection is torn down.
\<close>

theorem lifetime_ceiling_witness:
  \<open>HandlerFunc example_env (Store 0)
     (example_request ''Mozilla/5.0 Firefox/120.0''
        [frame Second ''{"type":"hello"}'', read_until_deadline (2 * Second) (3600 * Second)]) =
   ([LogDebug ''upgrading connection'',
     Accept \<lparr>InsecureSkipVerify = True, CompressionMode = 0\<rparr>,
     WgAdd 1, GoKeepalive (WithTimeout RequestContext 0 MaxConnectionTime),
     ConnRead (WithTimeout RequestContext 0 MaxConnectionTime) (Conn 1),
     HandlePacket (WithTimeout RequestContext 0 MaxConnectionTime) ''hello'' ''{"type":"hello"}'',
     ConnRead (WithTimeout RequestContext 0 MaxConnectionTime) (Conn 1),
     CallErrorAndDisconnect (WithTimeout RequestContext 0 MaxConnectionTime) (Conn 1)
       ''context deadline exceeded'',
     LogInfo ''peer websocket closed'' ''peer-1'',
     ConnClose (Conn 1) StatusInternalError ''unexpceted closure'',
     Disconnected (WithTimeout (WithLogger Background) (5 * Second) (10 * Second))
       \<lparr>store = Store 0, conn = Conn 1, ID = ''peer-1'', closedPacketReceived = False,
        retrievedIDCallback = Some ManagerReconnected\<rparr>,
     Cancel (WithTimeout (WithLogger Background) (5 * Second) (10 * Second)),
     WgDone, Cancel (WithTimeout RequestContext 0 MaxConnectionTime)],
    Some \<lparr>store = Store 0, conn = Conn 1, ID = ''peer-1'', closedPacketReceived = False,
          retrievedIDCallback = Some ManagerReconnected\<rparr>,
    Panicked)\<close>
proof -
  let ?hello = \<open>frame Second ''{"type":"hello"}''\<close>
  let ?it = \<open>read_until_deadline (2 * Second) (3600 * Second)\<close>
  let ?r = "example_request ''Mozilla/5.0 Firefox/120.0'' [?hello, ?it]"
  let ?p = "\<lparr>store = Store 0, conn = Conn 1, ID = ''peer-1'', closedPacketReceived = False,
           retrievedIDCallback = Some ManagerReconnected\<rparr>"
  have acc: "Accept_result ?r = Inr (Conn 1)"
    by (simp add: example_request_def)
  have contract: "\<forall>it \<in> set (iterations ?r). Read_honours_ctx (connection_ctx ?r) it"
    by (simp add: Read_honours_ctx_def example_request_def frame_def read_until_deadline_def
          connection_ctx_def MaxConnectionTime_def Hour_def Second_def)
  have its: "iterations ?r = [?hello] @ ?it # [] \<and>
      request_time ?r + 3600000000000 \<le> Read_returns_at ?it"
    by (simp add: example_request_def frame_def read_until_deadline_def Second_def)
  have pre: \<open>read_loop example_env (connection_ctx ?r) (Conn 1) (new_peer (Store 0) (Conn 1)) [?hello] =
      ([ConnRead (connection_ctx ?r) (Conn 1),
        HandlePacket (connection_ctx ?r) ''hello'' ''{"type":"hello"}''], ?p, Blocked)\<close>
    by (simp add: handler_defs example_defs)
  have live: "\<not> ctx_Err (now ?it) (request_done ?it) (connection_ctx ?r)"
    by (simp add: handler_defs example_defs)
  have res: "Read_result ?it = Inl ''context deadline exceeded''"
    by (simp add: read_until_deadline_def)
  note l = lifetime_ceiling [OF acc contract, of example_env "Store 0",
      THEN conjunct2, THEN conjunct2, THEN conjunct2, rule_format, OF its,
      THEN conjunct2, THEN conjunct2, THEN conjunct2, rule_format, OF pre]
  from l live res have e: \<open>HandlerFunc example_env (Store 0) ?r =
      ([LogDebug ''upgrading connection'', Accept (acceptOptions example_env (User_Agent ?r)),
        WgAdd 1, GoKeepalive (connection_ctx ?r)] @
       [ConnRead (connection_ctx ?r) (Conn 1),
        HandlePacket (connection_ctx ?r) ''hello'' ''{"type":"hello"}''] @
       [ConnRead (connection_ctx ?r) (Conn 1),
        CallErrorAndDisconnect (connection_ctx ?r) (Conn 1) ''context deadline exceeded''] @
       teardown (teardown_time ?r) (Conn 1) ?p @ [WgDone, Cancel (connection_ctx ?r)],
       Some ?p, Panicked)\<close>
    by (simp only: if_False) auto
  show ?thesis
    unfolding e
    by (simp add: teardown_def connection_ctx_def acceptOptions_def isSafari_def Let_def
          example_request_def example_env_def ascii_ToLower_def lower_table_def)
qed

subsection \<open>The wait-group\<close>

text \<open>
  C8, as amended. A connection calls \<open>wg.Add(1)\<close> once, as its first effect after a
  successful upgrade, and \<open>wg.Done()\<close> once, after its teardown, when the per-connection
  function ends; a failed upgrade touches the wait-group not at all, and a connection
  still in its read loop has added and not yet done. Hence, at any moment of any number
  of connections, each having performed some first part of its effects, if the counter of
  the shared wait-group is zero then every upgraded connection that has made its
  \<open>wg.Add\<close> has ended, and has performed its whole teardown and then its \<open>wg.Done\<close>.
  Between its upgrade and its \<open>wg.Add\<close> a connection is not counted.
\<close>

theorem wait_group_drains:
  "filter wg_event (fst (HandlerFunc env st r)) =
     (case Accept_result r of
        Inl e \<Rightarrow> []
      | Inr cn \<Rightarrow>
          if snd (snd (HandlerFunc env st r)) = Blocked then [WgAdd 1] else [WgAdd 1, WgDone]) \<and>
   (\<forall>cn. Accept_result r = Inr cn \<longrightarrow> take 3 (fst (HandlerFunc env st r)) =
      [LogDebug ''upgrading connection'', Accept (acceptOptions env (User_Agent r)), WgAdd 1]) \<and>
   (wg_total env st cs = 0 \<and> (r, n) \<in> set cs \<and> Accept_result r = Inr cn \<and> 3 \<le> n \<longrightarrow>
      snd (snd (HandlerFunc env st r)) \<noteq> Blocked \<and>
      (\<exists>pre p rest. fst (snd (HandlerFunc env st r)) = Some p \<and>
         take n (fst (HandlerFunc env st r)) =
           pre @ teardown (teardown_time r) cn p @ WgDone # rest))"
proof (intro conjI impI allI)
  show "filter wg_event (fst (HandlerFunc env st r)) =
     (case Accept_result r of
        Inl e \<Rightarrow> []
      | Inr cn \<Rightarrow>
          if snd (snd (HandlerFunc env st r)) = Blocked then [WgAdd 1] else [WgAdd 1, WgDone])"
    by (rule conn_wg_events)
next
  fix cn' assume "Accept_result r = Inr cn'"
  then show "take 3 (fst (HandlerFunc env st r)) =
      [LogDebug ''upgrading connection'', Accept (acceptOptions env (User_Agent r)), WgAdd 1]"
    by (simp add: HandlerFunc_def Let_def split: prod.splits outcome.splits)
next
  assume h: "wg_total env st cs = 0 \<and> (r, n) \<in> set cs \<and> Accept_result r = Inr cn \<and> 3 \<le> n"
  let ?f = "\<lambda>(r, n). wg_counter (take n (fst (HandlerFunc env st r)))"
  have nn: "\<And>x. x \<in> set (map ?f cs) \<Longrightarrow> 0 \<le> x"
    by (auto simp: conn_counter_nonneg)
  have "sum_list (map ?f cs) = 0"
    using h by (simp add: wg_total_def)
  with sum_list_nonneg_eq_0_iff [OF nn] have "\<forall>x \<in> set (map ?f cs). x = 0"
    by blast
  moreover from h have "(r, n) \<in> set cs"
    by simp
  then have "?f (r, n) \<in> set (map ?f cs)"
    unfolding set_map by (rule imageI)
  ultimately have "?f (r, n) = 0"
    by blast
  then have z: "wg_counter (take n (fst (HandlerFunc env st r))) = 0"
    by simp
  from h have acc: "Accept_result r = Inr cn" and n3: "3 \<le> n" by auto
  from z n3 have fin: "snd (snd (HandlerFunc env st r)) \<noteq> Blocked"
    and len: "length (fst (HandlerFunc env st r)) - 1 \<le> n"
    by (auto simp: conn_counter_accepted [OF acc] split: if_splits)
  show "snd (snd (HandlerFunc env st r)) \<noteq> Blocked" by (rule fin)
  from HandlerFunc_finished [OF acc fin] obtain t p where
    hf: "HandlerFunc env st r =
       ([LogDebug ''upgrading connection'', Accept (acceptOptions env (User_Agent r)),
         WgAdd 1, GoKeepalive (connection_ctx r)] @ t @
        teardown (teardown_time r) cn p @ [WgDone, Cancel (connection_ctx r)],
        Some p, snd (snd (HandlerFunc env st r)))" by blast
  let ?pre = "[LogDebug ''upgrading connection'', Accept (acceptOptions env (User_Agent r)),
         WgAdd 1, GoKeepalive (connection_ctx r)] @ t"
  let ?td = "teardown (teardown_time r) cn p"
  define A where "A = ?pre @ ?td"
  have eq: "fst (HandlerFunc env st r) = A @ [WgDone, Cancel (connection_ctx r)]"
    by (subst hf) (simp add: A_def)
  have po: "fst (snd (HandlerFunc env st r)) = Some p"
    by (subst hf) simp
  have "length (fst (HandlerFunc env st r)) = length A + 2"
    by (subst eq) simp
  with len have ge: "length A + 1 \<le> n"
    by linarith
  then obtain k where k: "n - length A = Suc k"
    by (cases "n - length A") auto
  from ge have "length A \<le> n"
    by simp
  then have "take n (fst (HandlerFunc env st r)) =
      A @ take (n - length A) [WgDone, Cancel (connection_ctx r)]"
    by (subst eq) (rule take_append_ge)
  then have "take n (fst (HandlerFunc env st r)) = A @ WgDone # take k [Cancel (connection_ctx r)]"
    by (simp add: k)
  then have "take n (fst (HandlerFunc env st r)) =
      ?pre @ ?td @ WgDone # take k [Cancel (connection_ctx r)]"
    by (simp add: A_def)
  with po show "\<exists>pre p rest. fst (snd (HandlerFunc env st r)) = Some p \<and>
         take n (fst (HandlerFunc env st r)) =
           pre @ teardown (teardown_time r) cn p @ WgDone # rest"
    by blast
qed

text \<open>
  Two requests: one whose upgrade fails, and a connection that says hello, breaks, and has
  performed all fourteen of its effects. The counter is zero, and the connection is torn down.
\<close>

theorem wait_group_drains_witness:
  \<open>wg_total example_env (Store 0)
     [((example_request ''curl/8.0'' [])\<lparr>Accept_result := Inl ''websocket: bad handshake''\<rparr>, 4),
      (example_request ''Mozilla/5.0 Firefox/120.0''
         [frame Second ''{"type":"hello"}'', read_failure (2 * Second)], 14)] = 0 \<and>
   snd (snd (HandlerFunc example_env (Store 0)
      (example_request ''Mozilla/5.0 Firefox/120.0''
         [frame Second ''{"type":"hello"}'', read_failure (2 * Second)]))) \<noteq> Blocked \<and>
   (\<exists>pre p rest.
      fst (snd (HandlerFunc example_env (Store 0)
        (example_request ''Mozilla/5.0 Firefox/120.0''
           [frame Second ''{"type":"hello"}'', read_failure (2 * Second)]))) = Some p \<and>
      take 14 (fst (HandlerFunc example_env (Store 0)
        (example_request ''Mozilla/5.0 Firefox/120.0''
           [frame Second ''{"type":"hello"}'', read_failure (2 * Second)]))) =
        pre @ teardown (5 * Second) (Conn 1) p @ WgDone # rest)\<close>
proof -
  let ?r = \<open>example_request ''Mozilla/5.0 Firefox/120.0''
         [frame Second ''{"type":"hello"}'', read_failure (2 * Second)]\<close>
  let ?bad = "(example_request ''curl/8.0'' [])\<lparr>Accept_result := Inl ''websocket: bad handshake''\<rparr>"
  let ?cs = "[(?bad, 4), (?r, 14)]"
  have zero: "wg_total example_env (Store 0) ?cs = 0"
    by (simp add: wg_total_def handler_defs example_defs Let_def)
  have mem: "(?r, 14) \<in> set ?cs"
    by simp
  have acc: "Accept_result ?r = Inr (Conn 1)"
    by (simp add: example_request_def)
  have t: "teardown_time ?r = 5 * Second"
    by (simp add: example_request_def)
  from wait_group_drains [of example_env "Store 0" ?r ?cs 14 "Conn 1", THEN conjunct2, THEN conjunct2]
    zero mem acc
  have "snd (snd (HandlerFunc example_env (Store 0) ?r)) \<noteq> Blocked \<and>
      (\<exists>pre p rest. fst (snd (HandlerFunc example_env (Store 0) ?r)) = Some p \<and>
         take 14 (fst (HandlerFunc example_env (Store 0) ?r)) =
           pre @ teardown (teardown_time ?r) (Conn 1) p @ WgDone # rest)"
    by simp
  with zero show ?thesis
    unfolding t by blast
qed

text \<open>
  C8 as stated fails. One connection has ended; another has been upgraded (its first two
  effects are done) but has not yet called \<open>wg.Add\<close>: the counter is zero while this
  connection lives, with its read loop and its teardown still to come.
\<close>

theorem wait_group_zero_with_live_connection:
  \<open>wg_total example_env (Store 0)
     [(example_request ''Mozilla/5.0 Firefox/120.0''
         [frame Second ''{"type":"hello"}'', read_failure (2 * Second)], 14),
      (example_request ''Mozilla/5.0 Firefox/120.0'' [frame (3 * Second) ''{"type":"hello"}''], 2)] = 0 \<and>
   Accept_result (example_request ''Mozilla/5.0 Firefox/120.0''
      [frame (3 * Second) ''{"type":"hello"}'']) = Inr (Conn 1) \<and>
   take 2 (fst (HandlerFunc example_env (Store 0)
      (example_request ''Mozilla/5.0 Firefox/120.0'' [frame (3 * Second) ''{"type":"hello"}'']))) =
     [LogDebug ''upgrading connection'',
      Accept \<lparr>InsecureSkipVerify = True, CompressionMode = 0\<rparr>] \<and>
   HandlerFunc example_env (Store 0)
      (example_request ''Mozilla/5.0 Firefox/120.0'' [frame (3 * Second) ''{"type":"hello"}'']) =
     ([LogDebug ''upgrading connection'',
       Accept \<lparr>InsecureSkipVerify = True, CompressionMode = 0\<rparr>,
       WgAdd 1, GoKeepalive (WithTimeout RequestContext 0 MaxConnectionTime),
       ConnRead (WithTimeout RequestContext 0 MaxConnectionTime) (Conn 1),
       HandlePacket (WithTimeout RequestContext 0 MaxConnectionTime) ''hello'' ''{"type":"hello"}''],
      Some \<lparr>store = Store 0, conn = Conn 1, ID = ''peer-1'', closedPacketReceived = False,
            retrievedIDCallback = Some ManagerReconnected\<rparr>,
      Blocked)\<close>
  by (simp add: wg_total_def handler_defs example_defs Let_def)

end
